theory Spec2Isabelle
  imports Complex_Main "HOL-Library.AList"
begin

section \<open>Numbers as numpy computes them\<close>

text \<open>
  Every numeric quantity of \<^verbatim>\<open>SwiftPhotom/uvot.py\<close> is a numpy double. A double is
  modelled as a value of \<open>fl\<close>: a finite number, carried as a real, or one of the three
  special values that numpy returns (with a warning, never an exception) where an
  operation leaves the finite numbers: \<open>PInf\<close>, \<open>NInf\<close> and \<open>NaN\<close>.
  Finite arithmetic is exact here: rounding, overflow of finite results and the sign of
  zero are not modelled (a zero is the positive zero).
\<close>

datatype fl = Fin real | PInf | NInf | NaN

fun sign_fl :: "fl \<Rightarrow> real" where
  "sign_fl (Fin a) = sgn a"
| "sign_fl PInf = 1"
| "sign_fl NInf = - 1"
| "sign_fl NaN = 0"

definition inf_of_sign :: "real \<Rightarrow> fl" where
  "inf_of_sign s = (if 0 < s then PInf else if s < 0 then NInf else NaN)"

fun fneg :: "fl \<Rightarrow> fl" where
  "fneg (Fin a) = Fin (- a)"
| "fneg PInf = NInf"
| "fneg NInf = PInf"
| "fneg NaN = NaN"

fun fadd :: "fl \<Rightarrow> fl \<Rightarrow> fl" where
  "fadd (Fin a) (Fin b) = Fin (a + b)"
| "fadd (Fin a) PInf = PInf"
| "fadd (Fin a) NInf = NInf"
| "fadd (Fin a) NaN = NaN"
| "fadd PInf (Fin b) = PInf"
| "fadd PInf PInf = PInf"
| "fadd PInf NInf = NaN"
| "fadd PInf NaN = NaN"
| "fadd NInf (Fin b) = NInf"
| "fadd NInf PInf = NaN"
| "fadd NInf NInf = NInf"
| "fadd NInf NaN = NaN"
| "fadd NaN y = NaN"

definition fsub :: "fl \<Rightarrow> fl \<Rightarrow> fl" where
  "fsub x y = fadd x (fneg y)"

fun fmul :: "fl \<Rightarrow> fl \<Rightarrow> fl" where
  "fmul (Fin a) (Fin b) = Fin (a * b)"
| "fmul NaN y = NaN"
| "fmul x NaN = NaN"
| "fmul x y = inf_of_sign (sign_fl x * sign_fl y)"

fun fdiv :: "fl \<Rightarrow> fl \<Rightarrow> fl" where
  "fdiv (Fin a) (Fin b) = (if b = 0 then inf_of_sign (sgn a) else Fin (a / b))"
| "fdiv NaN y = NaN"
| "fdiv x NaN = NaN"
| "fdiv (Fin a) y = Fin 0"
| "fdiv x (Fin b) = inf_of_sign (sign_fl x * (if b < 0 then - 1 else 1))"
| "fdiv x y = NaN"

text \<open>\<^verbatim>\<open>x**2\<close>: numpy squares by multiplying.\<close>

definition fsq :: "fl \<Rightarrow> fl" where
  "fsq x = fmul x x"

fun fsqrt :: "fl \<Rightarrow> fl" where
  "fsqrt (Fin a) = (if a < 0 then NaN else Fin (sqrt a))"
| "fsqrt PInf = PInf"
| "fsqrt NInf = NaN"
| "fsqrt NaN = NaN"

fun flog10 :: "fl \<Rightarrow> fl" where
  "flog10 (Fin a) = (if 0 < a then Fin (log 10 a) else if a = 0 then NInf else NaN)"
| "flog10 PInf = PInf"
| "flog10 NInf = NaN"
| "flog10 NaN = NaN"

text \<open>Comparisons: every comparison with \<open>NaN\<close> is false.\<close>

fun fge :: "fl \<Rightarrow> fl \<Rightarrow> bool" where
  "fge (Fin a) (Fin b) = (b \<le> a)"
| "fge NaN y = False"
| "fge x NaN = False"
| "fge PInf y = True"
| "fge x NInf = True"
| "fge x y = False"

fun flt :: "fl \<Rightarrow> fl \<Rightarrow> bool" where
  "flt (Fin a) (Fin b) = (a < b)"
| "flt NaN y = False"
| "flt x NaN = False"
| "flt x PInf = (x \<noteq> PInf)"
| "flt NInf y = (y \<noteq> NInf)"
| "flt x y = False"

subsection \<open>Arrays\<close>

text \<open>
  A column of a FITS table is a numpy array, here a list. The columns of one table have
  one length, so an elementwise operation on two of them pairs the entries by index.
\<close>

type_synonym arr = "fl list"

definition vadd :: "arr \<Rightarrow> arr \<Rightarrow> arr" where
  "vadd xs ys = map2 fadd xs ys"

definition vsub :: "arr \<Rightarrow> arr \<Rightarrow> arr" where
  "vsub xs ys = map2 fsub xs ys"

definition vmul :: "arr \<Rightarrow> arr \<Rightarrow> arr" where
  "vmul xs ys = map2 fmul xs ys"

definition vdiv :: "arr \<Rightarrow> arr \<Rightarrow> arr" where
  "vdiv xs ys = map2 fdiv xs ys"

definition vsq :: "arr \<Rightarrow> arr" where
  "vsq xs = map fsq xs"

definition vsqrt :: "arr \<Rightarrow> arr" where
  "vsqrt xs = map fsqrt xs"

definition vlog10 :: "arr \<Rightarrow> arr" where
  "vlog10 xs = map flog10 xs"

text \<open>An array and a scalar, the scalar on the right (\<open>xs * c\<close>) or on the left (\<open>c * xs\<close>).\<close>

definition vmul_s :: "arr \<Rightarrow> fl \<Rightarrow> arr" where
  "vmul_s xs c = map (\<lambda>x. fmul x c) xs"

definition smul_v :: "fl \<Rightarrow> arr \<Rightarrow> arr" where
  "smul_v c xs = map (\<lambda>x. fmul c x) xs"

definition vadd_s :: "arr \<Rightarrow> fl \<Rightarrow> arr" where
  "vadd_s xs c = map (\<lambda>x. fadd x c) xs"

definition vsub_s :: "arr \<Rightarrow> fl \<Rightarrow> arr" where
  "vsub_s xs c = map (\<lambda>x. fsub x c) xs"

definition vdiv_s :: "arr \<Rightarrow> fl \<Rightarrow> arr" where
  "vdiv_s xs c = map (\<lambda>x. fdiv x c) xs"

definition sadd_v :: "fl \<Rightarrow> arr \<Rightarrow> arr" where
  "sadd_v c xs = map (\<lambda>x. fadd c x) xs"

definition sdiv_v :: "fl \<Rightarrow> arr \<Rightarrow> arr" where
  "sdiv_v c xs = map (\<lambda>x. fdiv c x) xs"

definition np_sum :: "arr \<Rightarrow> fl" where
  "np_sum xs = foldl fadd (Fin 0) xs"

section \<open>The photometry table\<close>

text \<open>
  One row of the table that \<^verbatim>\<open>uvotmaghist\<close> writes (\<^verbatim>\<open>hdu[1].data\<close>), with the columns
  that \<^verbatim>\<open>extract_photometry\<close> reads. \<^verbatim>\<open>dd['X']\<close> is the column \<open>col X dd\<close>.
\<close>

record row =
  FILTER :: string
  SENSCORR_FACTOR :: fl
  COI_SRC_RATE :: fl
  COI_SRC_RATE_ERR :: fl
  RAW_STD_RATE :: fl
  RAW_STD_RATE_ERR :: fl
  COI_STD_FACTOR :: fl
  COI_BKG_RATE :: fl
  COI_BKG_RATE_ERR :: fl
  STD_AREA :: fl
  AP_FACTOR :: fl
  AP_FACTOR_ERR :: fl
  TSTART :: fl
  TSTOP :: fl

type_synonym table = "row list"

definition col :: "(row \<Rightarrow> 'a) \<Rightarrow> table \<Rightarrow> 'a list" where
  "col f dd = map f dd"

subsection \<open>Count rates of the two apertures (lines 307 to 326)\<close>

text \<open>
  \<open>template\<close> is the flag of the same name, \<open>i\<close> the position of the file in
  \<^verbatim>\<open>[_templ_file,_phot_file]\<close>: 0 for the template, 1 for the science file.
\<close>

definition SC :: "table \<Rightarrow> arr" where
  "SC dd = col SENSCORR_FACTOR dd"

definition S3BCR :: "table \<Rightarrow> arr" where
  "S3BCR dd = vmul (col COI_SRC_RATE dd) (SC dd)"

definition S3BCRe :: "bool \<Rightarrow> nat \<Rightarrow> table \<Rightarrow> arr" where
  "S3BCRe template i dd =
     (if template \<and> i = 1
      then vsqrt (vadd (vsq (col COI_SRC_RATE_ERR dd)) (vsq (vmul_s (S3BCR dd) (Fin 0.03))))
      else col COI_SRC_RATE_ERR dd)"

definition S5CR :: "table \<Rightarrow> arr" where
  "S5CR dd = vmul (col RAW_STD_RATE dd) (col COI_STD_FACTOR dd)"

definition S5CRe :: "table \<Rightarrow> arr" where
  "S5CRe dd = vmul (col RAW_STD_RATE_ERR dd) (col COI_STD_FACTOR dd)"

definition S5BCR :: "table \<Rightarrow> arr" where
  "S5BCR dd =
     vsub (vmul (vmul (col RAW_STD_RATE dd) (col COI_STD_FACTOR dd)) (SC dd))
          (vmul (vmul (col COI_BKG_RATE dd) (SC dd)) (col STD_AREA dd))"

definition S5BCRe :: "bool \<Rightarrow> nat \<Rightarrow> table \<Rightarrow> arr" where
  "S5BCRe template i dd =
     (if template \<and> i = 1
      then vsqrt (vadd (vadd (vsq (S5CRe dd)) (vsq (vmul_s (S5CR dd) (Fin 0.03))))
                       (vsq (vmul (col COI_BKG_RATE_ERR dd) (col STD_AREA dd))))
      else vsqrt (vadd (vsq (S5CRe dd))
                       (vsq (vmul (col COI_BKG_RATE_ERR dd) (col STD_AREA dd)))))"

section \<open>Calibration constants (lines 8 to 11)\<close>

definition ZP :: "string \<rightharpoonup> real \<times> real" where
  "ZP = [''V'' \<mapsto> (17.88, 0.01), ''B'' \<mapsto> (18.98, 0.02), ''U'' \<mapsto> (19.36, 0.02),
         ''UVW1'' \<mapsto> (18.95, 0.03), ''UVM2'' \<mapsto> (18.54, 0.03), ''UVW2'' \<mapsto> (19.11, 0.03)]"

definition Vega :: "string \<rightharpoonup> real" where
  "Vega = [''V'' \<mapsto> - 0.01, ''B'' \<mapsto> - 0.13, ''U'' \<mapsto> 1.02,
           ''UVW1'' \<mapsto> 1.51, ''UVM2'' \<mapsto> 1.69, ''UVW2'' \<mapsto> 1.73]"

definition mjdref :: real where
  "mjdref = 51910"

text \<open>Lines 279 to 284: the offsets and the name of the magnitude system, chosen by \<^verbatim>\<open>_ab\<close>.\<close>

definition Vega_corr :: "int \<Rightarrow> string \<rightharpoonup> real" where
  "Vega_corr ab =
     (if ab = 1
      then [''V'' \<mapsto> 0, ''B'' \<mapsto> 0, ''U'' \<mapsto> 0, ''UVW1'' \<mapsto> 0, ''UVM2'' \<mapsto> 0, ''UVW2'' \<mapsto> 0]
      else Vega)"

definition mag_sys :: "int \<Rightarrow> string" where
  "mag_sys ab = (if ab = 1 then ''AB'' else ''Vega'')"

section \<open>Catalog records\<close>

text \<open>
  A catalog record is the Python dict that \<^verbatim>\<open>extract_photometry\<close> appends to
  \<^verbatim>\<open>mag[label]\<close>: keys in insertion order, each with a string, a number or a boolean.
  \<^verbatim>\<open>json.dumps\<close> writes the keys of a dict in that order, so the serialized record is
  determined by this list, and a JSON file is modelled by the list of records dumped
  to it.
\<close>

datatype error = IndexError | KeyError string | TypeError

datatype jv = JStr string | JNum fl | JBool bool

type_synonym pydict = "(string \<times> jv) list"

definition dict_set :: "pydict \<Rightarrow> string \<Rightarrow> jv \<Rightarrow> pydict" where
  "dict_set d k v = AList.update k v d"

definition dict_get :: "pydict \<Rightarrow> string \<Rightarrow> error + jv" where
  "dict_get d k = (case map_of d k of None \<Rightarrow> Inl (KeyError k) | Some v \<Rightarrow> Inr v)"

definition keys :: "pydict \<Rightarrow> string list" where
  "keys d = map fst d"

section \<open>\<^verbatim>\<open>extract_photometry\<close> (lines 268 to 514)\<close>

text \<open>
  The variables that live across the two files and the two apertures. The figures and
  the progress messages are effects outside the catalog: the calls that draw, save and
  print them are left out, together with whatever the plotting library may raise.
\<close>

record state =
  template :: bool
  BCR_temp :: "string \<rightharpoonup> fl"
  BCRe_temp :: "string \<rightharpoonup> fl"
  mag :: "string \<rightharpoonup> pydict list"

subsection \<open>The template file: weighted average (lines 350 to 352)\<close>

text \<open>
  The two lines are embedded operation for operation. As everywhere here, the
  operations are exact on finite values, whereas numpy rounds each square, quotient,
  sum and root to binary64, in an order of summation that numpy fixes, not the
  source: for the rate 7 with error 3 the code returns
  7.000000000000001, and for an error of \<open>2\<^sup>7\<^sup>0\<^sup>0\<close> its square overflows and the code
  returns \<open>NaN\<close>. So the values of these two definitions are the exact weighted mean
  and its error, which the code returns only up to rounding, and nothing below rests
  on them: the references of a run with a template enter the statements as the
  values that \<open>template_pass\<close> stored, whatever they are.
\<close>

definition weighted_rate :: "arr \<Rightarrow> arr \<Rightarrow> fl" where
  "weighted_rate BCR BCRe =
     fdiv (np_sum (vdiv BCR (vsq BCRe))) (np_sum (sdiv_v (Fin 1) (vsq BCRe)))"

definition weighted_err :: "arr \<Rightarrow> fl" where
  "weighted_err BCRe = fsqrt (fdiv (Fin 1) (np_sum (sdiv_v (Fin 1) (vsq BCRe))))"

definition template_pass :: "arr \<Rightarrow> arr \<Rightarrow> string \<Rightarrow> state \<Rightarrow> state" where
  "template_pass BCR BCRe label st =
     st\<lparr>BCR_temp := (BCR_temp st)(label \<mapsto> weighted_rate BCR BCRe),
        BCRe_temp := (BCRe_temp st)(label \<mapsto> weighted_err BCRe)\<rparr>"

subsection \<open>The science file: subtraction, aperture correction, magnitudes (lines 363 to 437)\<close>

definition mjd :: "table \<Rightarrow> arr" where
  "mjd dd =
     sadd_v (Fin mjdref) (vdiv_s (vdiv_s (vadd (col TSTART dd) (col TSTOP dd)) (Fin 2)) (Fin 86400))"

definition BCGR :: "arr \<Rightarrow> fl \<Rightarrow> arr" where
  "BCGR BCR ref = vsub_s BCR ref"

definition BCGRe :: "arr \<Rightarrow> fl \<Rightarrow> arr" where
  "BCGRe BCRe ref_err = vsqrt (vadd_s (vsq BCRe) (fsq ref_err))"

definition BCGAR :: "string \<Rightarrow> string \<Rightarrow> table \<Rightarrow> arr \<Rightarrow> arr" where
  "BCGAR label user_ap dd bcgr =
     (if label = user_ap then vmul bcgr (col AP_FACTOR dd) else bcgr)"

definition BCGARe :: "string \<Rightarrow> string \<Rightarrow> table \<Rightarrow> arr \<Rightarrow> arr" where
  "BCGARe label user_ap dd bcgre =
     (if label = user_ap then vmul bcgre (col AP_FACTOR_ERR dd) else bcgre)"

definition BCGARs :: "arr \<Rightarrow> arr \<Rightarrow> arr" where
  "BCGARs ar ae = vdiv ar ae"

definition BCGAMl :: "arr \<Rightarrow> real \<Rightarrow> real \<Rightarrow> arr" where
  "BCGAMl ae zp vega =
     vsub_s (vadd_s (smul_v (Fin (- 2.5)) (vlog10 (smul_v (Fin 3) ae))) (Fin zp)) (Fin vega)"

text \<open>
  The body of the loop over the rows (lines 409 to 436), for one row: its aperture and
  coincidence factors, its date, its limit, its corrected rate \<open>ar\<close>, error \<open>ae\<close> and
  significance \<open>s\<close>.
\<close>

definition epoch_record ::
  "string \<Rightarrow> string \<Rightarrow> bool \<Rightarrow> fl \<Rightarrow> real \<Rightarrow> real \<Rightarrow> real \<Rightarrow>
   fl \<Rightarrow> fl \<Rightarrow> fl \<Rightarrow> fl \<Rightarrow> fl \<Rightarrow> fl \<Rightarrow> fl \<Rightarrow> pydict" where
  "epoch_record filt msys tmpl det_limit zp zpe vega apf coi date limit ar ae s =
     (let d = [(''filter'', JStr filt),
               (''aperture_correction'', JNum apf),
               (''coincidence_loss_correction'', JNum coi),
               (''mag_sys'', JStr msys),
               (''mag_limit'', JNum limit),
               (''template_subtracted'', JBool tmpl),
               (''mjd'', JNum date)]
      in if fge s det_limit
         then (let BCGAM = fsub (fadd (fmul (Fin (- 2.5)) (flog10 ar)) (Fin zp)) (Fin vega);
                   BCGAMe = fsqrt (fadd (fsq (fmul (Fin (2.5 / ln 10)) (fdiv ae ar))) (fsq (Fin zpe)))
               in dict_set (dict_set (dict_set d ''upper_limit'' (JBool False))
                                     ''mag'' (JNum BCGAM)) ''mag_err'' (JNum BCGAMe))
         else (let BCGAM = limit;
                   BCGAMe = Fin 0.2
               in dict_set (dict_set (dict_set d ''upper_limit'' (JBool True))
                                     ''mag'' (JNum BCGAM)) ''mag_err'' (JNum BCGAMe)))"

text \<open>The records of one aperture of the science file, in the order of the rows.\<close>

definition epoch_records ::
  "string \<Rightarrow> string \<Rightarrow> bool \<Rightarrow> fl \<Rightarrow> real \<Rightarrow> real \<Rightarrow> real \<Rightarrow> table \<Rightarrow> arr \<Rightarrow> arr \<Rightarrow> pydict list" where
  "epoch_records filt msys tmpl det_limit zp zpe vega dd ar ae =
     map (\<lambda>j. epoch_record filt msys tmpl det_limit zp zpe vega
                 (col AP_FACTOR dd ! j) (col COI_STD_FACTOR dd ! j) (mjd dd ! j)
                 (BCGAMl ae zp vega ! j) (ar ! j) (ae ! j) (BCGARs ar ae ! j))
         [0 ..< length (BCGARs ar ae)]"

definition science_pass ::
  "int \<Rightarrow> fl \<Rightarrow> string \<Rightarrow> table \<Rightarrow> string \<Rightarrow> arr \<Rightarrow> arr \<Rightarrow> string \<Rightarrow> state \<Rightarrow> error + state" where
  "science_pass ab det_limit user_ap dd filt BCR BCRe label st =
     (case BCR_temp st label of None \<Rightarrow> Inl (KeyError label) | Some ref \<Rightarrow>
      case BCRe_temp st label of None \<Rightarrow> Inl (KeyError label) | Some ref_err \<Rightarrow>
      case ZP filt of None \<Rightarrow> Inl (KeyError filt) | Some (zp, zpe) \<Rightarrow>
      case Vega_corr ab filt of None \<Rightarrow> Inl (KeyError filt) | Some vega \<Rightarrow>
      case mag st label of None \<Rightarrow> Inl (KeyError label) | Some old \<Rightarrow>
        (let ar = BCGAR label user_ap dd (BCGR BCR ref);
             ae = BCGARe label user_ap dd (BCGRe BCRe ref_err)
         in Inr (st\<lparr>mag := (mag st)(label \<mapsto>
                   old @ epoch_records filt (mag_sys ab) (template st) det_limit zp zpe vega dd ar ae)\<rparr>)))"

text \<open>
  The loop of line 341 over the two apertures: for the template file (\<open>i = 0\<close>) the
  average, for the science file the records.
\<close>

fun aperture_loop ::
  "int \<Rightarrow> fl \<Rightarrow> string \<Rightarrow> nat \<Rightarrow> table \<Rightarrow> string \<Rightarrow> (arr \<times> arr \<times> string) list \<Rightarrow> state \<Rightarrow> error + state" where
  "aperture_loop ab det_limit user_ap i dd filt [] st = Inr st"
| "aperture_loop ab det_limit user_ap i dd filt ((BCR, BCRe, label) # rest) st =
     (if i = 0
      then aperture_loop ab det_limit user_ap i dd filt rest (template_pass BCR BCRe label st)
      else (case science_pass ab det_limit user_ap dd filt BCR BCRe label st of
              Inl e \<Rightarrow> Inl e
            | Inr st' \<Rightarrow> aperture_loop ab det_limit user_ap i dd filt rest st'))"

text \<open>
  The body of the loop of line 294 for one file. A file is the table in its first
  extension, \<open>None\<close> where the argument is \<^verbatim>\<open>None\<close>. \<^verbatim>\<open>dd['FILTER'][0]\<close> raises
  IndexError on a table without rows.
\<close>

definition process_file ::
  "int \<Rightarrow> fl \<Rightarrow> string \<Rightarrow> nat \<Rightarrow> table option \<Rightarrow> state \<Rightarrow> error + state" where
  "process_file ab det_limit user_ap i file st =
     (case file of
        None \<Rightarrow> Inr (st\<lparr>BCR_temp := [user_ap \<mapsto> Fin 0, ''5_arcsec'' \<mapsto> Fin 0],
                        BCRe_temp := [user_ap \<mapsto> Fin 0, ''5_arcsec'' \<mapsto> Fin 0],
                        template := False\<rparr>)
      | Some dd \<Rightarrow>
          (case dd of
             [] \<Rightarrow> Inl IndexError
           | r # _ \<Rightarrow>
               aperture_loop ab det_limit user_ap i dd (FILTER r)
                 [(S3BCR dd, S3BCRe (template st) i dd, user_ap),
                  (S5BCR dd, S5BCRe (template st) i dd, ''5_arcsec'')] st))"

text \<open>
  The variables before the loop over the files (lines 276 to 292). \<^verbatim>\<open>template\<close> is
  bound to 1 where a template file is given; where none is given its first binding is
  the 0 of line 299, which the initial \<open>False\<close> anticipates. With the user label equal
  to \<^verbatim>\<open>'5_arcsec'\<close> the dict literal of line 289 has one key.
\<close>

definition initial_state :: "string \<Rightarrow> table option \<Rightarrow> state" where
  "initial_state user_ap templ_file =
     \<lparr>template = (templ_file \<noteq> None), BCR_temp = Map.empty, BCRe_temp = Map.empty,
      mag = [user_ap \<mapsto> [], ''5_arcsec'' \<mapsto> []]\<rparr>"

definition extract_photometry ::
  "table option \<Rightarrow> int \<Rightarrow> fl \<Rightarrow> string \<Rightarrow> table option \<Rightarrow> error + (string \<rightharpoonup> pydict list)" where
  "extract_photometry phot_file ab det_limit ap_size templ_file =
     (let user_ap = ap_size @ ''_arcsec'';
          st0 = initial_state user_ap templ_file
      in case process_file ab det_limit user_ap 0 templ_file st0 of
           Inl e \<Rightarrow> Inl e
         | Inr st1 \<Rightarrow>
             (case process_file ab det_limit user_ap 1 phot_file st1 of
                Inl e \<Rightarrow> Inl e
              | Inr st2 \<Rightarrow> Inr (mag st2)))"

section \<open>\<^verbatim>\<open>output_mags\<close> (lines 516 to 542)\<close>

text \<open>
  \<^verbatim>\<open>'%.5f' % x\<close> is kept as the pair of the number of decimals and the number: the
  digits themselves are not modelled. A boolean formats as 0 or 1, a string raises
  TypeError.
\<close>

datatype fmt = Fmt nat fl

definition percent_f :: "nat \<Rightarrow> jv \<Rightarrow> error + fmt" where
  "percent_f n v =
     (case v of
        JNum x \<Rightarrow> Inr (Fmt n x)
      | JBool b \<Rightarrow> Inr (Fmt n (Fin (if b then 1 else 0)))
      | JStr s \<Rightarrow> Inl TypeError)"

definition truthy :: "jv \<Rightarrow> bool" where
  "truthy v = (case v of JBool b \<Rightarrow> b | JNum x \<Rightarrow> x \<noteq> Fin 0 | JStr s \<Rightarrow> s \<noteq> [])"

text \<open>What one call of \<^verbatim>\<open>print\<close> writes: a text, or the four columns of a record.\<close>

datatype out = Text string | Cols fmt jv fmt fmt

definition report_line :: "pydict \<Rightarrow> error + out" where
  "report_line photom =
     (case dict_get photom ''mjd'' of Inl e \<Rightarrow> Inl e | Inr date \<Rightarrow>
      case dict_get photom ''filter'' of Inl e \<Rightarrow> Inl e | Inr filt \<Rightarrow>
      case dict_get photom ''upper_limit'' of Inl e \<Rightarrow> Inl e | Inr ul \<Rightarrow>
      case (if truthy ul
            then (case dict_get photom ''mag_limit'' of
                    Inl e \<Rightarrow> Inl e | Inr m \<Rightarrow> Inr (m, JNum (Fin 0)))
            else (case dict_get photom ''mag'' of Inl e \<Rightarrow> Inl e | Inr m \<Rightarrow>
                  case dict_get photom ''mag_err'' of Inl e \<Rightarrow> Inl e | Inr me \<Rightarrow> Inr (m, me)))
      of Inl e \<Rightarrow> Inl e | Inr (m, magerr) \<Rightarrow>
      case percent_f 5 date of Inl e \<Rightarrow> Inl e | Inr date' \<Rightarrow>
      case percent_f 4 m of Inl e \<Rightarrow> Inl e | Inr m' \<Rightarrow>
      case percent_f 4 magerr of Inl e \<Rightarrow> Inl e | Inr magerr' \<Rightarrow>
        Inr (Cols date' filt m' magerr'))"

fun report_lines :: "pydict list \<Rightarrow> error + out list" where
  "report_lines [] = Inr []"
| "report_lines (p # ps) =
     (case report_line p of Inl e \<Rightarrow> Inl e | Inr l \<Rightarrow>
      case report_lines ps of Inl e \<Rightarrow> Inl e | Inr ls \<Rightarrow> Inr (l # ls))"

text \<open>
  \<^verbatim>\<open>sorted(..., key=lambda x: x['mjd'])\<close>. The key of a record must be there
  (KeyError) and is taken to be a number, as it is in every record that
  \<^verbatim>\<open>extract_photometry\<close> builds; a string key is reported as TypeError, which Python
  raises when it compares it with a number. Python's sort is stable and compares with
  \<open><\<close> only. On keys that \<open><\<close> orders totally (no \<open>NaN\<close>) every stable sort returns
  the same list, the one computed here by insertion; with a \<open>NaN\<close> key the order
  Python returns depends on the comparisons its merge strategy happens to make, and
  is not modelled.
\<close>

definition mjd_key :: "pydict \<Rightarrow> error + fl" where
  "mjd_key photom =
     (case dict_get photom ''mjd'' of
        Inl e \<Rightarrow> Inl e
      | Inr (JNum x) \<Rightarrow> Inr x
      | Inr (JBool b) \<Rightarrow> Inr (Fin (if b then 1 else 0))
      | Inr (JStr s) \<Rightarrow> Inl TypeError)"

fun mjd_keys :: "pydict list \<Rightarrow> error + (fl \<times> pydict) list" where
  "mjd_keys [] = Inr []"
| "mjd_keys (p # ps) =
     (case mjd_key p of Inl e \<Rightarrow> Inl e | Inr k \<Rightarrow>
      case mjd_keys ps of Inl e \<Rightarrow> Inl e | Inr kps \<Rightarrow> Inr ((k, p) # kps))"

fun insert_keyed :: "fl \<times> 'a \<Rightarrow> (fl \<times> 'a) list \<Rightarrow> (fl \<times> 'a) list" where
  "insert_keyed x [] = [x]"
| "insert_keyed x (y # ys) =
     (if flt (fst y) (fst x) then y # insert_keyed x ys else x # y # ys)"

definition sort_keyed :: "(fl \<times> 'a) list \<Rightarrow> (fl \<times> 'a) list" where
  "sort_keyed kps = foldr insert_keyed kps []"

definition sorted_by_mjd :: "pydict list \<Rightarrow> error + pydict list" where
  "sorted_by_mjd ps =
     (case mjd_keys ps of Inl e \<Rightarrow> Inl e | Inr kps \<Rightarrow> Inr (map snd (sort_keyed kps)))"

text \<open>\<^verbatim>\<open>os.path.join\<close> of a directory name and a file name, on POSIX.\<close>

definition path_join :: "string \<Rightarrow> string \<Rightarrow> string" where
  "path_join a b = (case b of CHR ''/'' # _ \<Rightarrow> b | _ \<Rightarrow> a @ ''/'' @ b)"

text \<open>
  What \<^verbatim>\<open>output_mags\<close> does: the files written, in order, each with the records dumped
  to it; the calls of \<^verbatim>\<open>print\<close>, in order; and the catalog as the function leaves it
  (it rebinds \<^verbatim>\<open>_mag['5_arcsec']\<close>). An exception is returned alone: what was written
  before it is dropped from the result.
\<close>

record outcome =
  written :: "(string \<times> pydict list) list"
  printed :: "out list"
  mag_after :: "string \<rightharpoonup> pydict list"

definition output_mags :: "(string \<rightharpoonup> pydict list) \<Rightarrow> string \<Rightarrow> error + outcome" where
  "output_mags m ap_size =
     (let user_ap = ap_size @ ''_arcsec''
      in case m user_ap of None \<Rightarrow> Inl (KeyError user_ap) | Some user_list \<Rightarrow>
         case m ''5_arcsec'' of None \<Rightarrow> Inl (KeyError ''5_arcsec'') | Some std_list \<Rightarrow>
         case sorted_by_mjd std_list of Inl e \<Rightarrow> Inl e | Inr std_sorted \<Rightarrow>
         case report_lines std_sorted of Inl e \<Rightarrow> Inl e | Inr ls \<Rightarrow>
           Inr \<lparr>written = [(path_join ''reduction'' (ap_size @ ''_arcsec_photometry.json''), user_list),
                            (path_join ''reduction'' ''5_arcsec_photometry.json'', std_list)],
                printed = [Text ''5-arcsec output photometry:\<newline>'',
                           Text (replicate 80 CHR ''#'' @ ''\<newline>\<newline>'')] @ ls,
                mag_after = m(''5_arcsec'' \<mapsto> std_sorted)\<rparr>)"

section \<open>Concrete inputs\<close>

text \<open>
  A B-band row: user aperture 100 counts per second with error 4, the same in the
  5-arcsecond aperture with a background of 2 over an area of 10, observed over the two
  days after the reference date.
\<close>

definition r1 :: row where
  "r1 = \<lparr>FILTER = ''B'', SENSCORR_FACTOR = Fin 1, COI_SRC_RATE = Fin 100, COI_SRC_RATE_ERR = Fin 4,
          RAW_STD_RATE = Fin 100, RAW_STD_RATE_ERR = Fin 4, COI_STD_FACTOR = Fin 1,
          COI_BKG_RATE = Fin 2, COI_BKG_RATE_ERR = Fin 0, STD_AREA = Fin 10,
          AP_FACTOR = Fin 1, AP_FACTOR_ERR = Fin 1, TSTART = Fin 0, TSTOP = Fin 172800\<rparr>"

text \<open>
  The variables as they stand before the science file when no template is given:
  nothing to subtract, and the two lists of records empty.
\<close>

definition st_no_template :: "string \<Rightarrow> state" where
  "st_no_template user_ap =
     \<lparr>template = False,
      BCR_temp = [user_ap \<mapsto> Fin 0, ''5_arcsec'' \<mapsto> Fin 0],
      BCRe_temp = [user_ap \<mapsto> Fin 0, ''5_arcsec'' \<mapsto> Fin 0],
      mag = [user_ap \<mapsto> [], ''5_arcsec'' \<mapsto> []]\<rparr>"

text \<open>A second row, of the day before \<open>r1\<close>, fainter.\<close>

definition r2 :: row where
  "r2 = \<lparr>FILTER = ''B'', SENSCORR_FACTOR = Fin 1, COI_SRC_RATE = Fin 1, COI_SRC_RATE_ERR = Fin 1,
          RAW_STD_RATE = Fin 1, RAW_STD_RATE_ERR = Fin 1, COI_STD_FACTOR = Fin 1,
          COI_BKG_RATE = Fin 0, COI_BKG_RATE_ERR = Fin 0, STD_AREA = Fin 10,
          AP_FACTOR = Fin 1, AP_FACTOR_ERR = Fin 1, TSTART = Fin 0, TSTOP = Fin 0\<rparr>"

text \<open>
  A row with aperture correction 2 (error 1/3): 5 counts per second with error 1 in
  both apertures, no background.
\<close>

definition r3 :: row where
  "r3 = \<lparr>FILTER = ''B'', SENSCORR_FACTOR = Fin 1, COI_SRC_RATE = Fin 5, COI_SRC_RATE_ERR = Fin 1,
          RAW_STD_RATE = Fin 5, RAW_STD_RATE_ERR = Fin 1, COI_STD_FACTOR = Fin 1,
          COI_BKG_RATE = Fin 0, COI_BKG_RATE_ERR = Fin 0, STD_AREA = Fin 1,
          AP_FACTOR = Fin 2, AP_FACTOR_ERR = Fin (1 / 3), TSTART = Fin 0, TSTOP = Fin 0\<rparr>"

text \<open>
  A row whose rates are negative after the subtraction of the background: minus one
  count per second with error 1 in both apertures.
\<close>

definition r4 :: row where
  "r4 = \<lparr>FILTER = ''B'', SENSCORR_FACTOR = Fin 1, COI_SRC_RATE = Fin (- 1), COI_SRC_RATE_ERR = Fin 1,
          RAW_STD_RATE = Fin 0, RAW_STD_RATE_ERR = Fin 1, COI_STD_FACTOR = Fin 1,
          COI_BKG_RATE = Fin 1, COI_BKG_RATE_ERR = Fin 0, STD_AREA = Fin 1,
          AP_FACTOR = Fin 1, AP_FACTOR_ERR = Fin 1, TSTART = Fin 0, TSTOP = Fin 0\<rparr>"

section \<open>Reading a catalog\<close>

text \<open>
  What a record holds under a key, for the statements below: a number (\<open>NaN\<close> where the
  key is missing or holds no number), a flag, any value; and one key over a list of
  records.
\<close>

definition num_field :: "string \<Rightarrow> pydict \<Rightarrow> fl" where
  "num_field k d = (case map_of d k of Some (JNum x) \<Rightarrow> x | _ \<Rightarrow> NaN)"

definition flag_field :: "string \<Rightarrow> pydict \<Rightarrow> bool" where
  "flag_field k d = (map_of d k = Some (JBool True))"

definition any_field :: "string \<Rightarrow> pydict \<Rightarrow> jv" where
  "any_field k d = (case map_of d k of Some v \<Rightarrow> v | None \<Rightarrow> JStr [])"

definition field :: "string \<Rightarrow> pydict list \<Rightarrow> (error + jv) list" where
  "field k ds = map (\<lambda>d. dict_get d k) ds"

definition fin_val :: "fl \<Rightarrow> real" where
  "fin_val x = (case x of Fin a \<Rightarrow> a | _ \<Rightarrow> 0)"

text \<open>The date of a record, where it is finite.\<close>

definition date_of :: "pydict \<Rightarrow> real" where
  "date_of d = fin_val (num_field ''mjd'' d)"

text \<open>The records that the loop over the rows can build.\<close>

definition is_epoch_record :: "pydict \<Rightarrow> bool" where
  "is_epoch_record d =
     (\<exists>filt msys tmpl det_limit zp zpe vega apf coi date limit ar ae s.
        d = epoch_record filt msys tmpl det_limit zp zpe vega apf coi date limit ar ae s)"

text \<open>
  The line of the report for a record, in the words of the specification: the date to
  5 decimals, the filter, the magnitude or, for an upper limit, the limit to 4
  decimals, and the error of the magnitude or, for an upper limit, 0.0 to 4 decimals.
\<close>

definition report_row :: "pydict \<Rightarrow> out" where
  "report_row d =
     Cols (Fmt 5 (num_field ''mjd'' d)) (any_field ''filter'' d)
          (Fmt 4 (if flag_field ''upper_limit'' d then num_field ''mag_limit'' d
                  else num_field ''mag'' d))
          (Fmt 4 (if flag_field ''upper_limit'' d then Fin 0 else num_field ''mag_err'' d))"

text \<open>
  The field names of a record in the data model of the specification, and the keys of
  a record in the code (lines 410 to 436).
\<close>

definition spec_field_names :: "string set" where
  "spec_field_names =
     {''filter'', ''epoch_mjd'', ''aperture_correction'', ''coincidence_loss_correction'',
      ''magnitude_system'', ''mag'', ''mag_err'', ''mag_limit'', ''is_upper_limit'',
      ''template_subtracted''}"

definition record_keys :: "string list" where
  "record_keys =
     [''filter'', ''aperture_correction'', ''coincidence_loss_correction'', ''mag_sys'',
      ''mag_limit'', ''template_subtracted'', ''mjd'', ''upper_limit'', ''mag'', ''mag_err'']"

text \<open>The keys of the records of each file written, file by file.\<close>

definition written_keys :: "outcome \<Rightarrow> string list list list" where
  "written_keys out = map (\<lambda>(path, ds). map keys ds) (written out)"

section \<open>Properties\<close>

subsection \<open>Arithmetic of \<open>fl\<close>\<close>

lemma fmul_commute: "fmul x y = fmul y x"
  by (cases x; cases y) (simp_all add: mult.commute)

lemma fsub_zero [simp]: "fsub x (Fin 0) = x"
  by (cases x) (simp_all add: fsub_def)

lemma fsub_Fin [simp]: "fsub (Fin a) (Fin b) = Fin (a - b)"
  by (simp add: fsub_def)

lemma fsq_Fin [simp]: "fsq (Fin a) = Fin (a\<^sup>2)"
  by (simp add: fsq_def power2_eq_square)

lemma fsqrt_quadrature [simp]:
  "fsqrt (fadd (Fin (a\<^sup>2)) (Fin (b\<^sup>2))) = Fin (sqrt (a\<^sup>2 + b\<^sup>2))"
  by (simp add: not_less [symmetric] not_sum_power2_lt_zero)

subsection \<open>Columns\<close>

lemma length_col [simp]: "length (col f dd) = length dd"
  by (simp add: col_def)

lemma nth_col [simp]: "j < length dd \<Longrightarrow> col f dd ! j = f (dd ! j)"
  by (simp add: col_def)

lemma length_S3BCR [simp]: "length (S3BCR dd) = length dd"
  by (simp add: S3BCR_def SC_def vmul_def)

lemma length_S3BCRe [simp]: "length (S3BCRe t i dd) = length dd"
  by (simp add: S3BCRe_def vsqrt_def vadd_def vsq_def vmul_s_def)

lemma length_S5BCR [simp]: "length (S5BCR dd) = length dd"
  by (simp add: S5BCR_def SC_def vmul_def vsub_def)

lemma length_S5BCRe [simp]: "length (S5BCRe t i dd) = length dd"
  by (simp add: S5BCRe_def S5CRe_def S5CR_def vsqrt_def vadd_def vsq_def vmul_s_def vmul_def)

subsection \<open>Count rates of the user aperture\<close>

text \<open>
  C3: for every row of a table, the corrected count rate of the user aperture is
  COI_SRC_RATE times SENSCORR_FACTOR. Its error is COI_SRC_RATE_ERR unchanged, except
  where the template flag is set and the file is the science file (\<open>i = 1\<close>): there it
  is the square root of the squared error plus the square of 0.03 times the corrected
  rate. The template file (\<open>i = 0\<close>) and a run without template never get the 3
  percent. (In a run the flag with which the science file is processed says whether a
  template file was given: lemma \<open>after_first_file\<close> below.)
\<close>

theorem user_aperture_rate:
  assumes "j < length dd"
  shows "S3BCR dd ! j = fmul (COI_SRC_RATE (dd ! j)) (SENSCORR_FACTOR (dd ! j))
       \<and> S3BCRe tmpl i dd ! j =
           (if tmpl \<and> i = 1
            then fsqrt (fadd (fsq (COI_SRC_RATE_ERR (dd ! j))) (fsq (fmul (Fin 0.03) (S3BCR dd ! j))))
            else COI_SRC_RATE_ERR (dd ! j))"
  using assms
  by (simp add: S3BCR_def S3BCRe_def SC_def vmul_def vsqrt_def vadd_def vsq_def vmul_s_def
      fmul_commute)

theorem user_aperture_rate_witness:
  "(0::nat) < length [r1] \<and> S3BCR [r1] ! 0 = Fin 100
   \<and> S3BCRe True 1 [r1] ! 0 = Fin 5 \<and> S3BCRe True 0 [r1] ! 0 = Fin 4
   \<and> S3BCRe False 1 [r1] ! 0 = Fin 4"
  using user_aperture_rate [of 0 "[r1]" True 1] user_aperture_rate [of 0 "[r1]" True 0]
    user_aperture_rate [of 0 "[r1]" False 1]
  by (simp add: r1_def)

subsection \<open>Count rates of the 5-arcsecond aperture\<close>

text \<open>
  C4: for every row of a table, the background-corrected rate of the fixed 5-arcsecond
  aperture is RAW_STD_RATE times COI_STD_FACTOR times SENSCORR_FACTOR, minus
  COI_BKG_RATE times SENSCORR_FACTOR times STD_AREA. Its error is the quadrature sum
  of RAW_STD_RATE_ERR times COI_STD_FACTOR and of COI_BKG_RATE_ERR times STD_AREA,
  with the further term 0.03 times RAW_STD_RATE times COI_STD_FACTOR only where the
  template flag is set and the file is the science file. The error does not depend on
  SENSCORR_FACTOR.
\<close>

theorem fixed_aperture_rate:
  assumes "j < length dd"
  shows "S5BCR dd ! j =
           fsub (fmul (fmul (RAW_STD_RATE (dd ! j)) (COI_STD_FACTOR (dd ! j))) (SENSCORR_FACTOR (dd ! j)))
                (fmul (fmul (COI_BKG_RATE (dd ! j)) (SENSCORR_FACTOR (dd ! j))) (STD_AREA (dd ! j)))
       \<and> S5BCRe tmpl i dd ! j =
           (if tmpl \<and> i = 1
            then fsqrt (fadd (fadd (fsq (fmul (RAW_STD_RATE_ERR (dd ! j)) (COI_STD_FACTOR (dd ! j))))
                                   (fsq (fmul (Fin 0.03)
                                           (fmul (RAW_STD_RATE (dd ! j)) (COI_STD_FACTOR (dd ! j))))))
                             (fsq (fmul (COI_BKG_RATE_ERR (dd ! j)) (STD_AREA (dd ! j)))))
            else fsqrt (fadd (fsq (fmul (RAW_STD_RATE_ERR (dd ! j)) (COI_STD_FACTOR (dd ! j))))
                             (fsq (fmul (COI_BKG_RATE_ERR (dd ! j)) (STD_AREA (dd ! j))))))
       \<and> S5BCRe tmpl i (map (SENSCORR_FACTOR_update f) dd) = S5BCRe tmpl i dd"
  using assms
  by (simp add: S5BCR_def S5BCRe_def S5CR_def S5CRe_def SC_def vmul_def vsub_def vsqrt_def
      vadd_def vsq_def vmul_s_def fmul_commute col_def comp_def)

theorem fixed_aperture_rate_witness:
  "(0::nat) < length [r1] \<and> S5BCR [r1] ! 0 = Fin 80
   \<and> S5BCRe True 1 [r1] ! 0 = Fin 5 \<and> S5BCRe True 0 [r1] ! 0 = Fin 4
   \<and> S5BCRe False 1 [r1] ! 0 = Fin 4"
  using fixed_aperture_rate [of 0 "[r1]" True 1] fixed_aperture_rate [of 0 "[r1]" True 0]
    fixed_aperture_rate [of 0 "[r1]" False 1]
  by (simp add: r1_def)

subsection \<open>One aperture of the science file\<close>

lemma length_BCGR [simp]: "length (BCGR BCR ref) = length BCR"
  by (simp add: BCGR_def vsub_s_def)

lemma length_BCGRe [simp]: "length (BCGRe BCRe ref_err) = length BCRe"
  by (simp add: BCGRe_def vsqrt_def vadd_s_def vsq_def)

lemma length_BCGAR [simp]: "length xs = length dd \<Longrightarrow> length (BCGAR label user_ap dd xs) = length dd"
  by (simp add: BCGAR_def vmul_def)

lemma length_BCGARe [simp]: "length xs = length dd \<Longrightarrow> length (BCGARe label user_ap dd xs) = length dd"
  by (simp add: BCGARe_def vmul_def)

lemma length_BCGARs [simp]: "length (BCGARs ar ae) = min (length ar) (length ae)"
  by (simp add: BCGARs_def vdiv_def)

lemma length_epoch_records [simp]:
  "length (epoch_records filt msys tmpl det_limit zp zpe vega dd ar ae) = min (length ar) (length ae)"
  by (simp add: epoch_records_def)

lemma nth_BCGARs: "j < length ar \<Longrightarrow> j < length ae \<Longrightarrow> BCGARs ar ae ! j = fdiv (ar ! j) (ae ! j)"
  by (simp add: BCGARs_def vdiv_def)

lemma nth_BCGAMl:
  "j < length ae \<Longrightarrow>
   BCGAMl ae zp vega ! j
     = fsub (fadd (fmul (Fin (- 2.5)) (flog10 (fmul (Fin 3) (ae ! j)))) (Fin zp)) (Fin vega)"
  by (simp add: BCGAMl_def vsub_s_def vadd_s_def smul_v_def vlog10_def)

lemma nth_epoch_records:
  assumes "j < length ar" and "j < length ae"
  shows "epoch_records filt msys tmpl det_limit zp zpe vega dd ar ae ! j
         = epoch_record filt msys tmpl det_limit zp zpe vega
             (col AP_FACTOR dd ! j) (col COI_STD_FACTOR dd ! j) (mjd dd ! j)
             (fsub (fadd (fmul (Fin (- 2.5)) (flog10 (fmul (Fin 3) (ae ! j)))) (Fin zp)) (Fin vega))
             (ar ! j) (ae ! j) (fdiv (ar ! j) (ae ! j))"
  using assms by (simp add: epoch_records_def nth_BCGARs nth_BCGAMl)

lemma epoch_record_fields:
  "dict_get (epoch_record filt msys tmpl det_limit zp zpe vega apf coi date limit ar ae s) ''filter''
     = Inr (JStr filt)"
  "dict_get (epoch_record filt msys tmpl det_limit zp zpe vega apf coi date limit ar ae s) ''aperture_correction''
     = Inr (JNum apf)"
  "dict_get (epoch_record filt msys tmpl det_limit zp zpe vega apf coi date limit ar ae s) ''coincidence_loss_correction''
     = Inr (JNum coi)"
  "dict_get (epoch_record filt msys tmpl det_limit zp zpe vega apf coi date limit ar ae s) ''mag_sys''
     = Inr (JStr msys)"
  "dict_get (epoch_record filt msys tmpl det_limit zp zpe vega apf coi date limit ar ae s) ''mag_limit''
     = Inr (JNum limit)"
  "dict_get (epoch_record filt msys tmpl det_limit zp zpe vega apf coi date limit ar ae s) ''template_subtracted''
     = Inr (JBool tmpl)"
  "dict_get (epoch_record filt msys tmpl det_limit zp zpe vega apf coi date limit ar ae s) ''mjd''
     = Inr (JNum date)"
  "dict_get (epoch_record filt msys tmpl det_limit zp zpe vega apf coi date limit ar ae s) ''upper_limit''
     = Inr (JBool (\<not> fge s det_limit))"
  "dict_get (epoch_record filt msys tmpl det_limit zp zpe vega apf coi date limit ar ae s) ''mag''
     = Inr (JNum (if fge s det_limit
                  then fsub (fadd (fmul (Fin (- 2.5)) (flog10 ar)) (Fin zp)) (Fin vega)
                  else limit))"
  "dict_get (epoch_record filt msys tmpl det_limit zp zpe vega apf coi date limit ar ae s) ''mag_err''
     = Inr (JNum (if fge s det_limit
                  then fsqrt (fadd (fsq (fmul (Fin (2.5 / ln 10)) (fdiv ae ar))) (fsq (Fin zpe)))
                  else Fin 0.2))"
  by (simp_all add: epoch_record_def dict_get_def dict_set_def Let_def)

lemma epoch_record_keys:
  "keys (epoch_record filt msys tmpl det_limit zp zpe vega apf coi date limit ar ae s)
     = [''filter'', ''aperture_correction'', ''coincidence_loss_correction'', ''mag_sys'',
        ''mag_limit'', ''template_subtracted'', ''mjd'', ''upper_limit'', ''mag'', ''mag_err'']"
  by (simp add: epoch_record_def keys_def dict_set_def Let_def)

lemma science_pass_Inr:
  assumes "science_pass ab det_limit user_ap dd filt BCR BCRe label st = Inr st'"
  obtains ref ref_err zp zpe vega old where
    "BCR_temp st label = Some ref" and "BCRe_temp st label = Some ref_err"
    and "ZP filt = Some (zp, zpe)" and "Vega_corr ab filt = Some vega"
    and "mag st label = Some old"
    and "st' = st\<lparr>mag := (mag st)(label \<mapsto> old @
            epoch_records filt (mag_sys ab) (template st) det_limit zp zpe vega dd
              (BCGAR label user_ap dd (BCGR BCR ref))
              (BCGARe label user_ap dd (BCGRe BCRe ref_err)))\<rparr>"
  using assms
  by (auto simp: science_pass_def Let_def split: option.splits prod.splits)

lemma science_pass_Inl:
  assumes "science_pass ab det_limit user_ap dd filt BCR BCRe label st = Inl e"
  shows "e = KeyError label \<or> e = KeyError filt"
  using assms
  by (auto simp: science_pass_def Let_def split: option.splits prod.splits)

text \<open>
  C1: where one aperture of the science file is reduced, take the record of row \<open>j\<close>,
  with \<open>ap_rate\<close> and \<open>ap_err\<close> the aperture-corrected rate and error of that row, the
  zero point and its error from \<open>ZP\<close> and the offset from \<open>Vega_corr\<close>. The record
  carries the 3-sigma limit \<open>-2.5 log10 (3 ap_err) + zp - vega\<close> under
  \<^verbatim>\<open>mag_limit\<close>. If \<open>ap_rate / ap_err\<close> is at least the detection limit (equality
  included) the record is not an upper limit, its magnitude is
  \<open>-2.5 log10 ap_rate + zp - vega\<close> and its error is the square root of
  \<open>((2.5 / ln 10) (ap_err / ap_rate))\<^sup>2 + zpe\<^sup>2\<close>. Otherwise it is an upper limit, its
  magnitude is the 3-sigma limit and its error is 0.2. (The upper-limit flag is
  stored under the key \<^verbatim>\<open>upper_limit\<close>.)
\<close>

theorem magnitude_or_limit:
  assumes "science_pass ab det_limit user_ap dd filt BCR BCRe label st = Inr st'"
    and "length BCR = length dd" and "length BCRe = length dd" and "j < length dd"
  shows
    "(let zp = fst (the (ZP filt)); zpe = snd (the (ZP filt)); vega = the (Vega_corr ab filt);
          ap_rate = BCGAR label user_ap dd (BCGR BCR (the (BCR_temp st label))) ! j;
          ap_err = BCGARe label user_ap dd (BCGRe BCRe (the (BCRe_temp st label))) ! j;
          mag_limit = fsub (fadd (fmul (Fin (- 2.5)) (flog10 (fmul (Fin 3) ap_err))) (Fin zp)) (Fin vega);
          record = the (mag st' label) ! (length (the (mag st label)) + j)
      in dict_get record ''mag_limit'' = Inr (JNum mag_limit)
       \<and> (if fge (fdiv ap_rate ap_err) det_limit
          then dict_get record ''upper_limit'' = Inr (JBool False)
             \<and> dict_get record ''mag''
                 = Inr (JNum (fsub (fadd (fmul (Fin (- 2.5)) (flog10 ap_rate)) (Fin zp)) (Fin vega)))
             \<and> dict_get record ''mag_err''
                 = Inr (JNum (fsqrt (fadd (fsq (fmul (Fin (2.5 / ln 10)) (fdiv ap_err ap_rate)))
                                          (fsq (Fin zpe)))))
          else dict_get record ''upper_limit'' = Inr (JBool True)
             \<and> dict_get record ''mag'' = Inr (JNum mag_limit)
             \<and> dict_get record ''mag_err'' = Inr (JNum (Fin 0.2))))"
proof -
  from assms(1) obtain ref ref_err zp zpe vega old where
    lk: "BCR_temp st label = Some ref" "BCRe_temp st label = Some ref_err"
      "ZP filt = Some (zp, zpe)" "Vega_corr ab filt = Some vega" "mag st label = Some old"
    and st': "st' = st\<lparr>mag := (mag st)(label \<mapsto> old @
            epoch_records filt (mag_sys ab) (template st) det_limit zp zpe vega dd
              (BCGAR label user_ap dd (BCGR BCR ref))
              (BCGARe label user_ap dd (BCGRe BCRe ref_err)))\<rparr>"
    by (rule science_pass_Inr)
  let ?ar = "BCGAR label user_ap dd (BCGR BCR ref)"
  let ?ae = "BCGARe label user_ap dd (BCGRe BCRe ref_err)"
  have len: "j < length ?ar" "j < length ?ae"
    using assms(2-4) by simp_all
  show ?thesis
    using len
    by (simp add: st' lk Let_def nth_epoch_records epoch_record_fields)
qed


theorem magnitude_or_limit_witness:
  "dict_get (the (mag (projr (science_pass 0 (Fin 10) ''3_arcsec'' [r1] ''B'' [Fin 10] [Fin 1]
                               ''5_arcsec'' (st_no_template ''3_arcsec''))) ''5_arcsec'') ! 0) ''mag''
     = Inr (JNum (Fin 16.61))
   \<and> dict_get (the (mag (projr (science_pass 0 (Fin 10) ''3_arcsec'' [r1] ''B'' [Fin 10] [Fin 1]
                               ''5_arcsec'' (st_no_template ''3_arcsec''))) ''5_arcsec'') ! 0) ''upper_limit''
     = Inr (JBool False)"
proof -
  obtain st' where ok:
    "science_pass 0 (Fin 10) ''3_arcsec'' [r1] ''B'' [Fin 10] [Fin 1] ''5_arcsec''
       (st_no_template ''3_arcsec'') = Inr st'"
    by (simp add: science_pass_def st_no_template_def ZP_def Vega_corr_def Vega_def)
  have "length [Fin 10] = length [r1]" and "length [Fin 1] = length [r1]" and "0 < length [r1]"
    by simp_all
  from magnitude_or_limit [OF ok this]
  have "dict_get (the (mag st' ''5_arcsec'') ! 0) ''mag'' = Inr (JNum (Fin 16.61))
      \<and> dict_get (the (mag st' ''5_arcsec'') ! 0) ''upper_limit'' = Inr (JBool False)"
    by (simp add: st_no_template_def ZP_def Vega_corr_def Vega_def BCGAR_def BCGARe_def
        BCGR_def BCGRe_def vsub_s_def vsqrt_def vadd_s_def vsq_def Let_def)
  then show ?thesis
    by (simp add: ok)
qed

subsection \<open>The two files\<close>

lemma process_file_None:
  "process_file ab det_limit user_ap i None st =
     Inr (st\<lparr>BCR_temp := [user_ap \<mapsto> Fin 0, ''5_arcsec'' \<mapsto> Fin 0],
             BCRe_temp := [user_ap \<mapsto> Fin 0, ''5_arcsec'' \<mapsto> Fin 0],
             template := False\<rparr>)"
  by (simp add: process_file_def)

lemma process_file_template:
  assumes "td \<noteq> []"
  shows "process_file ab det_limit user_ap 0 (Some td) st =
     Inr (template_pass (S5BCR td) (S5BCRe (template st) 0 td) ''5_arcsec''
            (template_pass (S3BCR td) (S3BCRe (template st) 0 td) user_ap st))"
  using assms by (cases td) (simp_all add: process_file_def)

lemma process_file_science:
  "process_file ab det_limit user_ap (Suc 0) (Some (r # rs)) st =
     (case science_pass ab det_limit user_ap (r # rs) (FILTER r)
             (S3BCR (r # rs)) (S3BCRe (template st) 1 (r # rs)) user_ap st of
        Inl e \<Rightarrow> Inl e
      | Inr st' \<Rightarrow>
          science_pass ab det_limit user_ap (r # rs) (FILTER r)
            (S5BCR (r # rs)) (S5BCRe (template st) 1 (r # rs)) ''5_arcsec'' st')"
  by (simp add: process_file_def split: sum.splits)

text \<open>What the first file leaves: the flag, the two lists still empty, both references bound.\<close>

lemma after_first_file:
  assumes "process_file ab det_limit user_ap 0 templ_file (initial_state user_ap templ_file) = Inr st1"
  shows "template st1 = (templ_file \<noteq> None)"
    and "mag st1 = [user_ap \<mapsto> [], ''5_arcsec'' \<mapsto> []]"
    and "BCR_temp st1 user_ap \<noteq> None" and "BCR_temp st1 ''5_arcsec'' \<noteq> None"
    and "BCRe_temp st1 user_ap \<noteq> None" and "BCRe_temp st1 ''5_arcsec'' \<noteq> None"
proof -
  show "template st1 = (templ_file \<noteq> None)"
    using assms
    by (cases templ_file; cases "the templ_file")
       (auto simp: process_file_def initial_state_def template_pass_def)
  show "mag st1 = [user_ap \<mapsto> [], ''5_arcsec'' \<mapsto> []]"
    using assms
    by (cases templ_file; cases "the templ_file")
       (auto simp: process_file_def initial_state_def template_pass_def)
  show "BCR_temp st1 user_ap \<noteq> None" and "BCR_temp st1 ''5_arcsec'' \<noteq> None"
    and "BCRe_temp st1 user_ap \<noteq> None" and "BCRe_temp st1 ''5_arcsec'' \<noteq> None"
    using assms
    by (cases templ_file; cases "the templ_file";
        auto simp: process_file_def initial_state_def template_pass_def)+
qed

text \<open>
  The catalog of a run that returns: the records of the user aperture under the user
  label, those of the 5-arcsecond aperture under \<^verbatim>\<open>'5_arcsec'\<close>, after those of the
  user aperture where the two labels are one.
\<close>

lemma extract_photometry_Inr:
  assumes "extract_photometry (Some dd) ab det_limit ap_size templ_file = Inr m"
  obtains st1 ref3 err3 ref5 err5 zp zpe vega where
    "process_file ab det_limit (ap_size @ ''_arcsec'') 0 templ_file
       (initial_state (ap_size @ ''_arcsec'') templ_file) = Inr st1"
    and "dd \<noteq> []"
    and "ZP (FILTER (hd dd)) = Some (zp, zpe)" and "Vega_corr ab (FILTER (hd dd)) = Some vega"
    and "BCR_temp st1 (ap_size @ ''_arcsec'') = Some ref3"
    and "BCRe_temp st1 (ap_size @ ''_arcsec'') = Some err3"
    and "BCR_temp st1 ''5_arcsec'' = Some ref5" and "BCRe_temp st1 ''5_arcsec'' = Some err5"
    and "m = [ap_size @ ''_arcsec'' \<mapsto>
                epoch_records (FILTER (hd dd)) (mag_sys ab) (templ_file \<noteq> None) det_limit zp zpe vega dd
                  (BCGAR (ap_size @ ''_arcsec'') (ap_size @ ''_arcsec'') dd (BCGR (S3BCR dd) ref3))
                  (BCGARe (ap_size @ ''_arcsec'') (ap_size @ ''_arcsec'') dd
                     (BCGRe (S3BCRe (templ_file \<noteq> None) 1 dd) err3)),
              ''5_arcsec'' \<mapsto>
                (if ap_size @ ''_arcsec'' = ''5_arcsec''
                 then epoch_records (FILTER (hd dd)) (mag_sys ab) (templ_file \<noteq> None) det_limit zp zpe vega dd
                        (BCGAR (ap_size @ ''_arcsec'') (ap_size @ ''_arcsec'') dd (BCGR (S3BCR dd) ref3))
                        (BCGARe (ap_size @ ''_arcsec'') (ap_size @ ''_arcsec'') dd
                           (BCGRe (S3BCRe (templ_file \<noteq> None) 1 dd) err3))
                 else [])
                @ epoch_records (FILTER (hd dd)) (mag_sys ab) (templ_file \<noteq> None) det_limit zp zpe vega dd
                    (BCGAR ''5_arcsec'' (ap_size @ ''_arcsec'') dd (BCGR (S5BCR dd) ref5))
                    (BCGARe ''5_arcsec'' (ap_size @ ''_arcsec'') dd
                       (BCGRe (S5BCRe (templ_file \<noteq> None) 1 dd) err5))]"
proof -
  let ?u = "ap_size @ ''_arcsec''"
  from assms obtain st1 st2 where
    f1: "process_file ab det_limit ?u 0 templ_file (initial_state ?u templ_file) = Inr st1"
    and f2: "process_file ab det_limit ?u 1 (Some dd) st1 = Inr st2" and m: "m = mag st2"
    by (auto simp: extract_photometry_def Let_def split: sum.splits)
  note a = after_first_file [OF f1]
  from f2 obtain r rs where dd: "dd = r # rs"
    by (cases dd) (simp_all add: process_file_def)
  from f2 obtain st' where
    p3: "science_pass ab det_limit ?u dd (FILTER r) (S3BCR dd) (S3BCRe (template st1) 1 dd) ?u st1 = Inr st'"
    and p5: "science_pass ab det_limit ?u dd (FILTER r) (S5BCR dd) (S5BCRe (template st1) 1 dd) ''5_arcsec'' st' = Inr st2"
    unfolding dd by (auto simp: process_file_science split: sum.splits)
  from p3 obtain ref3 err3 zp zpe vega old3 where
    l3: "BCR_temp st1 ?u = Some ref3" "BCRe_temp st1 ?u = Some err3"
      "ZP (FILTER r) = Some (zp, zpe)" "Vega_corr ab (FILTER r) = Some vega" "mag st1 ?u = Some old3"
    and st': "st' = st1\<lparr>mag := (mag st1)(?u \<mapsto> old3 @
            epoch_records (FILTER r) (mag_sys ab) (template st1) det_limit zp zpe vega dd
              (BCGAR ?u ?u dd (BCGR (S3BCR dd) ref3))
              (BCGARe ?u ?u dd (BCGRe (S3BCRe (template st1) 1 dd) err3)))\<rparr>"
    by (rule science_pass_Inr)
  from p5 obtain ref5 err5 zp' zpe' vega' old5 where
    l5: "BCR_temp st' ''5_arcsec'' = Some ref5" "BCRe_temp st' ''5_arcsec'' = Some err5"
      "ZP (FILTER r) = Some (zp', zpe')" "Vega_corr ab (FILTER r) = Some vega'"
      "mag st' ''5_arcsec'' = Some old5"
    and st2: "st2 = st'\<lparr>mag := (mag st')(''5_arcsec'' \<mapsto> old5 @
            epoch_records (FILTER r) (mag_sys ab) (template st') det_limit zp' zpe' vega' dd
              (BCGAR ''5_arcsec'' ?u dd (BCGR (S5BCR dd) ref5))
              (BCGARe ''5_arcsec'' ?u dd (BCGRe (S5BCRe (template st1) 1 dd) err5)))\<rparr>"
    by (rule science_pass_Inr)
  have same: "zp' = zp" "zpe' = zpe" "vega' = vega"
    using l3 l5 by simp_all
  have old3: "old3 = []" using l3(5) a(2) by (auto split: if_splits)
  have old5: "old5 = (if ?u = ''5_arcsec''
       then epoch_records (FILTER r) (mag_sys ab) (template st1) det_limit zp zpe vega dd
              (BCGAR ?u ?u dd (BCGR (S3BCR dd) ref3))
              (BCGARe ?u ?u dd (BCGRe (S3BCRe (template st1) 1 dd) err3))
       else [])"
    using l5(5) a(2) by (auto simp: st' old3 split: if_splits)
  show thesis
  proof (rule that [OF f1 _ _ _ l3(1) l3(2)])
    show "dd \<noteq> []" by (simp add: dd)
    show "ZP (FILTER (hd dd)) = Some (zp, zpe)" by (simp add: dd l3)
    show "Vega_corr ab (FILTER (hd dd)) = Some vega" by (simp add: dd l3)
    show "BCR_temp st1 ''5_arcsec'' = Some ref5" using l5(1) by (simp add: st')
    show "BCRe_temp st1 ''5_arcsec'' = Some err5" using l5(2) by (simp add: st')
    show "m = [?u \<mapsto>
                epoch_records (FILTER (hd dd)) (mag_sys ab) (templ_file \<noteq> None) det_limit zp zpe vega dd
                  (BCGAR ?u ?u dd (BCGR (S3BCR dd) ref3))
                  (BCGARe ?u ?u dd (BCGRe (S3BCRe (templ_file \<noteq> None) 1 dd) err3)),
              ''5_arcsec'' \<mapsto>
                (if ?u = ''5_arcsec''
                 then epoch_records (FILTER (hd dd)) (mag_sys ab) (templ_file \<noteq> None) det_limit zp zpe vega dd
                        (BCGAR ?u ?u dd (BCGR (S3BCR dd) ref3))
                        (BCGARe ?u ?u dd (BCGRe (S3BCRe (templ_file \<noteq> None) 1 dd) err3))
                 else [])
                @ epoch_records (FILTER (hd dd)) (mag_sys ab) (templ_file \<noteq> None) det_limit zp zpe vega dd
                    (BCGAR ''5_arcsec'' ?u dd (BCGR (S5BCR dd) ref5))
                    (BCGARe ''5_arcsec'' ?u dd (BCGRe (S5BCRe (templ_file \<noteq> None) 1 dd) err5))]"
      unfolding m st2 same old5 old3
      by (simp add: st' a(1) a(2) dd old3)
  qed
qed

lemma Vega_corr_dom: "dom (Vega_corr ab) = dom ZP"
  by (auto simp: Vega_corr_def Vega_def ZP_def split: if_splits)

lemma first_file_None:
  "process_file ab det_limit user_ap 0 None (initial_state user_ap None) = Inr (st_no_template user_ap)"
  by (simp add: process_file_None initial_state_def st_no_template_def)

lemma science_pass_ok:
  assumes "BCR_temp st label = Some ref" and "BCRe_temp st label = Some ref_err"
    and "ZP filt = Some (zp, zpe)" and "Vega_corr ab filt = Some vega"
    and "mag st label = Some old"
  shows "science_pass ab det_limit user_ap dd filt BCR BCRe label st =
     Inr (st\<lparr>mag := (mag st)(label \<mapsto> old @
            epoch_records filt (mag_sys ab) (template st) det_limit zp zpe vega dd
              (BCGAR label user_ap dd (BCGR BCR ref))
              (BCGARe label user_ap dd (BCGRe BCRe ref_err)))\<rparr>)"
  using assms by (simp add: science_pass_def)

lemma process_file_science_ok:
  assumes "BCR_temp st user_ap = Some ref3" and "BCRe_temp st user_ap = Some err3"
    and "BCR_temp st ''5_arcsec'' = Some ref5" and "BCRe_temp st ''5_arcsec'' = Some err5"
    and "ZP (FILTER r) = Some (zp, zpe)" and "Vega_corr ab (FILTER r) = Some vega"
    and "mag st = [user_ap \<mapsto> [], ''5_arcsec'' \<mapsto> []]" and "dd = r # rs"
  shows "\<exists>st2. process_file ab det_limit user_ap 1 (Some dd) st = Inr st2"
  using assms
  by (auto simp: process_file_science science_pass_def split: sum.splits)

lemma extract_photometry_ok:
  assumes "dd \<noteq> []" and "FILTER (hd dd) \<in> dom ZP"
    and "templ_file \<noteq> Some []"
  shows "\<exists>m. extract_photometry (Some dd) ab det_limit ap_size templ_file = Inr m"
proof -
  let ?u = "ap_size @ ''_arcsec''"
  obtain r rs where dd: "dd = r # rs" using assms(1) by (cases dd) auto
  obtain zp zpe where zp: "ZP (FILTER r) = Some (zp, zpe)" using assms(2) dd by auto
  obtain vega where vega: "Vega_corr ab (FILTER r) = Some vega"
    using assms(2) dd Vega_corr_dom [of ab] by auto
  obtain st1 where f1:
    "process_file ab det_limit ?u 0 templ_file (initial_state ?u templ_file) = Inr st1"
    using assms(3) by (cases templ_file) (auto simp: process_file_None process_file_template)
  note a = after_first_file [OF f1]
  from a obtain ref3 err3 ref5 err5 where
    "BCR_temp st1 ?u = Some ref3" "BCRe_temp st1 ?u = Some err3"
    "BCR_temp st1 ''5_arcsec'' = Some ref5" "BCRe_temp st1 ''5_arcsec'' = Some err5"
    by auto
  from process_file_science_ok [OF this zp vega a(2) dd]
  obtain st2 where "process_file ab det_limit ?u 1 (Some dd) st1 = Inr st2" by blast
  then show ?thesis
    using f1 by (simp add: extract_photometry_def)
qed

text \<open>The exceptions of a run: a table without rows, or a filter that \<open>ZP\<close> does not list.\<close>

lemma extract_photometry_Inl:
  assumes "extract_photometry (Some dd) ab det_limit ap_size templ_file = Inl e"
  shows "(e = IndexError \<and> (dd = [] \<or> templ_file = Some []))
       \<or> (e = KeyError (FILTER (hd dd)) \<and> dd \<noteq> [] \<and> FILTER (hd dd) \<notin> dom ZP)"
proof (cases "dd \<noteq> [] \<and> FILTER (hd dd) \<in> dom ZP \<and> templ_file \<noteq> Some []")
  case True
  then show ?thesis using extract_photometry_ok [of dd templ_file ab det_limit ap_size] assms by auto
next
  case False
  let ?u = "ap_size @ ''_arcsec''"
  show ?thesis
  proof (cases "templ_file = Some []")
    case True
    then show ?thesis using assms by (simp add: extract_photometry_def process_file_def)
  next
    case nt: False
    then obtain st1 where f1:
      "process_file ab det_limit ?u 0 templ_file (initial_state ?u templ_file) = Inr st1"
      by (cases templ_file) (auto simp: process_file_None process_file_template)
    note a = after_first_file [OF f1]
    show ?thesis
    proof (cases dd)
      case Nil
      then show ?thesis using assms f1 by (simp add: extract_photometry_def process_file_def)
    next
      case (Cons r rs)
      then have nz: "ZP (FILTER r) = None" using False nt by auto
      then have nv: "Vega_corr ab (FILTER r) = None" using Vega_corr_dom [of ab] by blast
      from a obtain ref3 err3 where "BCR_temp st1 ?u = Some ref3" "BCRe_temp st1 ?u = Some err3"
        by auto
      then have "process_file ab det_limit ?u 1 (Some dd) st1 = Inl (KeyError (FILTER r))"
        using nz by (simp add: Cons process_file_science science_pass_def)
      then show ?thesis using assms f1 nz Cons by (auto simp: extract_photometry_def)
    qed
  qed
qed

subsection \<open>Records of a catalog\<close>

lemma epoch_records_member:
  assumes "d \<in> set (epoch_records filt msys tmpl det_limit zp zpe vega dd ar ae)"
  obtains j where "j < length ar" and "j < length ae"
    and "d = epoch_record filt msys tmpl det_limit zp zpe vega
             (col AP_FACTOR dd ! j) (col COI_STD_FACTOR dd ! j) (mjd dd ! j)
             (fsub (fadd (fmul (Fin (- 2.5)) (flog10 (fmul (Fin 3) (ae ! j)))) (Fin zp)) (Fin vega))
             (ar ! j) (ae ! j) (fdiv (ar ! j) (ae ! j))"
proof -
  from assms obtain j where j: "j < min (length ar) (length ae)"
    and d: "d = epoch_records filt msys tmpl det_limit zp zpe vega dd ar ae ! j"
    by (metis in_set_conv_nth length_epoch_records)
  from j have "j < length ar" and "j < length ae" by simp_all
  then show thesis
    using d that by (simp add: nth_epoch_records)
qed

lemma is_epoch_record_epoch_record [simp]:
  "is_epoch_record (epoch_record filt msys tmpl det_limit zp zpe vega apf coi date limit ar ae s)"
  unfolding is_epoch_record_def by blast

lemma is_epoch_record_keys: "is_epoch_record d \<Longrightarrow> keys d = record_keys"
  by (auto simp: is_epoch_record_def epoch_record_keys record_keys_def)

lemma map_of_epoch_record:
  "map_of (epoch_record filt msys tmpl det_limit zp zpe vega apf coi date limit ar ae s) =
     [''filter'' \<mapsto> JStr filt, ''aperture_correction'' \<mapsto> JNum apf,
      ''coincidence_loss_correction'' \<mapsto> JNum coi, ''mag_sys'' \<mapsto> JStr msys,
      ''mag_limit'' \<mapsto> JNum limit, ''template_subtracted'' \<mapsto> JBool tmpl, ''mjd'' \<mapsto> JNum date,
      ''upper_limit'' \<mapsto> JBool (\<not> fge s det_limit),
      ''mag'' \<mapsto> JNum (if fge s det_limit
                        then fsub (fadd (fmul (Fin (- 2.5)) (flog10 ar)) (Fin zp)) (Fin vega)
                        else limit),
      ''mag_err'' \<mapsto> JNum (if fge s det_limit
                            then fsqrt (fadd (fsq (fmul (Fin (2.5 / ln 10)) (fdiv ae ar))) (fsq (Fin zpe)))
                            else Fin 0.2)]"
  by (rule ext) (simp add: epoch_record_def dict_set_def Let_def)

lemma report_line_epoch_record:
  assumes "is_epoch_record d"
  shows "report_line d = Inr (report_row d)" and "mjd_key d = Inr (num_field ''mjd'' d)"
  using assms
  by (auto simp: is_epoch_record_def report_line_def report_row_def mjd_key_def dict_get_def
      map_of_epoch_record num_field_def flag_field_def any_field_def truthy_def percent_f_def)

lemma report_lines_records:
  "\<forall>d \<in> set ds. is_epoch_record d \<Longrightarrow> report_lines ds = Inr (map report_row ds)"
  by (induction ds) (simp_all add: report_line_epoch_record)

lemma mjd_keys_records:
  "\<forall>d \<in> set ds. is_epoch_record d \<Longrightarrow>
   mjd_keys ds = Inr (map (\<lambda>d. (num_field ''mjd'' d, d)) ds)"
  by (induction ds) (simp_all add: report_line_epoch_record)

subsection \<open>Sorting by date\<close>

lemma insert_keyed_finite:
  assumes "\<exists>t. k x = Fin t" and "\<forall>y \<in> set ys. \<exists>t. k y = Fin t"
  shows "insert_keyed (k x, x) (map (\<lambda>d. (k d, d)) ys)
         = map (\<lambda>d. (k d, d)) (insort_key (\<lambda>d. fin_val (k d)) x ys)"
  using assms
  by (induction ys) (auto simp: fin_val_def)

lemma sort_keyed_finite:
  assumes "\<forall>y \<in> set ys. \<exists>t. k y = Fin t"
  shows "sort_keyed (map (\<lambda>d. (k d, d)) ys) = map (\<lambda>d. (k d, d)) (sort_key (\<lambda>d. fin_val (k d)) ys)"
  using assms
proof (induction ys)
  case Nil
  then show ?case by (simp add: sort_keyed_def)
next
  case (Cons y ys)
  then have ih: "sort_keyed (map (\<lambda>d. (k d, d)) ys) = map (\<lambda>d. (k d, d)) (sort_key (\<lambda>d. fin_val (k d)) ys)"
    by simp
  have fin: "\<forall>z \<in> set (sort_key (\<lambda>d. fin_val (k d)) ys). \<exists>t. k z = Fin t"
    using Cons.prems by simp
  have "sort_keyed (map (\<lambda>d. (k d, d)) (y # ys))
        = insert_keyed (k y, y) (sort_keyed (map (\<lambda>d. (k d, d)) ys))"
    by (simp add: sort_keyed_def)
  also have "\<dots> = map (\<lambda>d. (k d, d)) (insort_key (\<lambda>d. fin_val (k d)) y (sort_key (\<lambda>d. fin_val (k d)) ys))"
    unfolding ih using Cons.prems fin by (intro insert_keyed_finite) simp_all
  finally show ?case by simp
qed

lemma sorted_by_mjd_records:
  assumes "\<forall>d \<in> set ds. is_epoch_record d \<and> (\<exists>t. num_field ''mjd'' d = Fin t)"
  shows "sorted_by_mjd ds = Inr (sort_key date_of ds)"
proof -
  have "mjd_keys ds = Inr (map (\<lambda>d. (num_field ''mjd'' d, d)) ds)"
    using assms by (simp add: mjd_keys_records)
  moreover have "sort_keyed (map (\<lambda>d. (num_field ''mjd'' d, d)) ds)
      = map (\<lambda>d. (num_field ''mjd'' d, d)) (sort_key date_of ds)"
    using sort_keyed_finite [of ds "num_field ''mjd''"] assms by (simp add: date_of_def [abs_def])
  ultimately show ?thesis
    by (simp add: sorted_by_mjd_def comp_def)
qed

lemma path_join_reduction [simp]:
  "path_join ''reduction'' ''5_arcsec_photometry.json'' = ''reduction/5_arcsec_photometry.json''"
  by (simp add: path_join_def)

lemma output_mags_records:
  assumes "m (ap_size @ ''_arcsec'') = Some user_list" and "m ''5_arcsec'' = Some std_list"
    and "\<forall>d \<in> set std_list. is_epoch_record d \<and> (\<exists>t. num_field ''mjd'' d = Fin t)"
  shows "output_mags m ap_size =
     Inr \<lparr>written = [(path_join ''reduction'' (ap_size @ ''_arcsec_photometry.json''), user_list),
                      (''reduction/5_arcsec_photometry.json'', std_list)],
          printed = [Text ''5-arcsec output photometry:\<newline>'',
                     Text (replicate 80 CHR ''#'' @ ''\<newline>\<newline>'')]
                    @ map report_row (sort_key date_of std_list),
          mag_after = m(''5_arcsec'' \<mapsto> sort_key date_of std_list)\<rparr>"
proof -
  have "report_lines (sort_key date_of std_list)
        = Inr (map report_row (sort_key date_of std_list))"
    using assms(3) by (intro report_lines_records) simp
  then show ?thesis
    using assms by (simp add: output_mags_def sorted_by_mjd_records)
qed

subsection \<open>The catalog of a run\<close>

lemma num_field_mjd_epoch_record [simp]:
  "num_field ''mjd'' (epoch_record filt msys tmpl det_limit zp zpe vega apf coi date limit ar ae s) = date"
  by (simp add: num_field_def map_of_epoch_record)

lemma length_mjd [simp]: "length (mjd dd) = length dd"
  by (simp add: mjd_def sadd_v_def vdiv_s_def vadd_def)

lemma nth_mjd:
  "j < length dd \<Longrightarrow>
   mjd dd ! j = fadd (Fin mjdref) (fdiv (fdiv (fadd (TSTART (dd ! j)) (TSTOP (dd ! j))) (Fin 2)) (Fin 86400))"
  by (simp add: mjd_def sadd_v_def vdiv_s_def vadd_def)

lemma epoch_records_nth_facts:
  assumes "length ar = length dd" and "length ae = length dd" and "j < length dd"
  shows "is_epoch_record (epoch_records filt msys tmpl det_limit zp zpe vega dd ar ae ! j)"
    and "num_field ''mjd'' (epoch_records filt msys tmpl det_limit zp zpe vega dd ar ae ! j) = mjd dd ! j"
    and "dict_get (epoch_records filt msys tmpl det_limit zp zpe vega dd ar ae ! j) ''template_subtracted''
           = Inr (JBool tmpl)"
  using assms by (simp_all add: nth_epoch_records epoch_record_fields)

lemma run_catalog:
  assumes "extract_photometry (Some dd) ab det_limit ap_size templ_file = Inr m"
  obtains recs3 recs5 where
    "length recs3 = length dd" and "length recs5 = length dd"
    and "m = [ap_size @ ''_arcsec'' \<mapsto> recs3,
              ''5_arcsec'' \<mapsto> (if ap_size @ ''_arcsec'' = ''5_arcsec'' then recs3 else []) @ recs5]"
    and "\<forall>j < length dd. is_epoch_record (recs3 ! j) \<and> num_field ''mjd'' (recs3 ! j) = mjd dd ! j
            \<and> dict_get (recs3 ! j) ''template_subtracted'' = Inr (JBool (templ_file \<noteq> None))"
    and "\<forall>j < length dd. is_epoch_record (recs5 ! j) \<and> num_field ''mjd'' (recs5 ! j) = mjd dd ! j
            \<and> dict_get (recs5 ! j) ''template_subtracted'' = Inr (JBool (templ_file \<noteq> None))"
proof -
  let ?u = "ap_size @ ''_arcsec''"
  from assms obtain st1 ref3 err3 ref5 err5 zp zpe vega where
    m: "m = [?u \<mapsto>
                epoch_records (FILTER (hd dd)) (mag_sys ab) (templ_file \<noteq> None) det_limit zp zpe vega dd
                  (BCGAR ?u ?u dd (BCGR (S3BCR dd) ref3))
                  (BCGARe ?u ?u dd (BCGRe (S3BCRe (templ_file \<noteq> None) 1 dd) err3)),
              ''5_arcsec'' \<mapsto>
                (if ?u = ''5_arcsec''
                 then epoch_records (FILTER (hd dd)) (mag_sys ab) (templ_file \<noteq> None) det_limit zp zpe vega dd
                        (BCGAR ?u ?u dd (BCGR (S3BCR dd) ref3))
                        (BCGARe ?u ?u dd (BCGRe (S3BCRe (templ_file \<noteq> None) 1 dd) err3))
                 else [])
                @ epoch_records (FILTER (hd dd)) (mag_sys ab) (templ_file \<noteq> None) det_limit zp zpe vega dd
                    (BCGAR ''5_arcsec'' ?u dd (BCGR (S5BCR dd) ref5))
                    (BCGARe ''5_arcsec'' ?u dd (BCGRe (S5BCRe (templ_file \<noteq> None) 1 dd) err5))]"
    by (rule extract_photometry_Inr)
  show thesis
  proof (rule that [OF _ _ m])
    show "length (epoch_records (FILTER (hd dd)) (mag_sys ab) (templ_file \<noteq> None) det_limit zp zpe vega dd
                  (BCGAR ?u ?u dd (BCGR (S3BCR dd) ref3))
                  (BCGARe ?u ?u dd (BCGRe (S3BCRe (templ_file \<noteq> None) 1 dd) err3))) = length dd"
      by simp
    show "length (epoch_records (FILTER (hd dd)) (mag_sys ab) (templ_file \<noteq> None) det_limit zp zpe vega dd
                    (BCGAR ''5_arcsec'' ?u dd (BCGR (S5BCR dd) ref5))
                    (BCGARe ''5_arcsec'' ?u dd (BCGRe (S5BCRe (templ_file \<noteq> None) 1 dd) err5))) = length dd"
      by simp
  qed (simp_all add: epoch_records_nth_facts)
qed

lemma mjd_finite:
  assumes "\<forall>r \<in> set dd. \<exists>a b. TSTART r = Fin a \<and> TSTOP r = Fin b" and "j < length dd"
  shows "\<exists>t. mjd dd ! j = Fin t"
proof -
  from assms obtain a b where "TSTART (dd ! j) = Fin a" and "TSTOP (dd ! j) = Fin b"
    by (meson nth_mem)
  then show ?thesis using assms(2) by (simp add: nth_mjd)
qed

lemma BCGR_zero [simp]: "BCGR BCR (Fin 0) = BCR"
  by (simp add: BCGR_def vsub_s_def)

lemma catalog_members:
  assumes "extract_photometry (Some dd) ab det_limit ap_size templ_file = Inr m"
    and "m label = Some ds" and "d \<in> set ds"
  shows "is_epoch_record d"
    and "dict_get d ''template_subtracted'' = Inr (JBool (templ_file \<noteq> None))"
    and "\<exists>j < length dd. num_field ''mjd'' d = mjd dd ! j"
proof -
  from assms(1) obtain recs3 recs5 where
    len: "length recs3 = length dd" "length recs5 = length dd"
    and m: "m = [ap_size @ ''_arcsec'' \<mapsto> recs3,
              ''5_arcsec'' \<mapsto> (if ap_size @ ''_arcsec'' = ''5_arcsec'' then recs3 else []) @ recs5]"
    and r3: "\<forall>j < length dd. is_epoch_record (recs3 ! j) \<and> num_field ''mjd'' (recs3 ! j) = mjd dd ! j
            \<and> dict_get (recs3 ! j) ''template_subtracted'' = Inr (JBool (templ_file \<noteq> None))"
    and r5: "\<forall>j < length dd. is_epoch_record (recs5 ! j) \<and> num_field ''mjd'' (recs5 ! j) = mjd dd ! j
            \<and> dict_get (recs5 ! j) ''template_subtracted'' = Inr (JBool (templ_file \<noteq> None))"
    by (rule run_catalog)
  from assms(2,3) m have "d \<in> set recs3 \<or> d \<in> set recs5"
    by (auto split: if_splits)
  then obtain j where j: "j < length dd" and d: "d = recs3 ! j \<or> d = recs5 ! j"
    using len by (auto simp: in_set_conv_nth)
  show "is_epoch_record d" using j d r3 r5 by auto
  show "dict_get d ''template_subtracted'' = Inr (JBool (templ_file \<noteq> None))"
    using j d r3 r5 by auto
  show "\<exists>j < length dd. num_field ''mjd'' d = mjd dd ! j"
    using j d r3 r5 by auto
qed

lemma catalog_labels:
  assumes "extract_photometry (Some dd) ab det_limit ap_size templ_file = Inr m"
  shows "m (ap_size @ ''_arcsec'') \<noteq> None" and "m ''5_arcsec'' \<noteq> None"
  using assms by (auto elim!: run_catalog)

text \<open>Without a science file the two lists stay empty.\<close>

lemma extract_photometry_no_phot:
  assumes "extract_photometry None ab det_limit ap_size templ_file = Inr m"
  shows "m = [ap_size @ ''_arcsec'' \<mapsto> [], ''5_arcsec'' \<mapsto> []]"
proof -
  let ?u = "ap_size @ ''_arcsec''"
  from assms obtain st1 where
    f1: "process_file ab det_limit ?u 0 templ_file (initial_state ?u templ_file) = Inr st1"
    and m: "m = mag st1"
    by (auto simp: extract_photometry_def Let_def process_file_None split: sum.splits)
  show ?thesis using after_first_file(2) [OF f1] m by simp
qed

lemma output_mags_written:
  assumes "output_mags m ap_size = Inr out"
  shows "written out =
           [(path_join ''reduction'' (ap_size @ ''_arcsec_photometry.json''), the (m (ap_size @ ''_arcsec''))),
            (''reduction/5_arcsec_photometry.json'', the (m ''5_arcsec''))]"
  using assms
  by (auto simp: output_mags_def Let_def split: option.splits sum.splits)

text \<open>What \<^verbatim>\<open>output_mags\<close> does with the catalog of a run whose observation times are finite.\<close>

lemma output_of_run:
  assumes "extract_photometry (Some dd) ab det_limit ap_size templ_file = Inr m"
    and "\<forall>r \<in> set dd. \<exists>a b. TSTART r = Fin a \<and> TSTOP r = Fin b"
  shows "output_mags m ap_size =
     Inr \<lparr>written = [(path_join ''reduction'' (ap_size @ ''_arcsec_photometry.json''),
                       the (m (ap_size @ ''_arcsec''))),
                      (''reduction/5_arcsec_photometry.json'', the (m ''5_arcsec''))],
          printed = [Text ''5-arcsec output photometry:\<newline>'',
                     Text (replicate 80 CHR ''#'' @ ''\<newline>\<newline>'')]
                    @ map report_row (sort_key date_of (the (m ''5_arcsec''))),
          mag_after = m(''5_arcsec'' \<mapsto> sort_key date_of (the (m ''5_arcsec'')))\<rparr>"
proof -
  from catalog_labels [OF assms(1)] obtain user_list std_list where
    l: "m (ap_size @ ''_arcsec'') = Some user_list" "m ''5_arcsec'' = Some std_list"
    by auto
  have "\<forall>d \<in> set std_list. is_epoch_record d \<and> (\<exists>t. num_field ''mjd'' d = Fin t)"
  proof
    fix d assume d: "d \<in> set std_list"
    from catalog_members(3) [OF assms(1) l(2) d] obtain j where
      "j < length dd" and "num_field ''mjd'' d = mjd dd ! j" by blast
    with mjd_finite [OF assms(2)] have "\<exists>t. num_field ''mjd'' d = Fin t" by simp
    with catalog_members(1) [OF assms(1) l(2) d]
    show "is_epoch_record d \<and> (\<exists>t. num_field ''mjd'' d = Fin t)" by simp
  qed
  from output_mags_records [OF l this] show ?thesis by (simp add: l)
qed

lemma dict_get_mjd_record:
  "is_epoch_record d \<Longrightarrow> dict_get d ''mjd'' = Inr (JNum (num_field ''mjd'' d))"
  by (auto simp: is_epoch_record_def epoch_record_fields)

lemma field_mjd:
  assumes "length recs = length dd"
    and "\<forall>j < length dd. is_epoch_record (recs ! j) \<and> num_field ''mjd'' (recs ! j) = mjd dd ! j \<and> P j"
  shows "field ''mjd'' recs = map (\<lambda>x. Inr (JNum x)) (mjd dd)"
  using assms by (intro nth_equalityI) (simp_all add: field_def dict_get_mjd_record)

lemma field_append: "field k (xs @ ys) = field k xs @ field k ys"
  by (simp add: field_def)

lemma map_date_of: "map date_of ds = map fin_val (map (num_field ''mjd'') ds)"
  by (simp add: date_of_def)

lemma num_mjd:
  assumes "length recs = length dd"
    and "\<forall>j < length dd. is_epoch_record (recs ! j) \<and> num_field ''mjd'' (recs ! j) = mjd dd ! j \<and> P j"
  shows "map (num_field ''mjd'') recs = mjd dd"
  using assms by (intro nth_equalityI) simp_all

lemma run_num_dates:
  assumes "extract_photometry (Some dd) ab det_limit ap_size templ_file = Inr m"
  shows "map (num_field ''mjd'') (the (m ''5_arcsec'')) = (if ap_size = ''5'' then mjd dd else []) @ mjd dd"
    and "ap_size \<noteq> ''5'' \<Longrightarrow> map (num_field ''mjd'') (the (m (ap_size @ ''_arcsec''))) = mjd dd"
proof -
  from assms obtain recs3 recs5 where
    len: "length recs3 = length dd" "length recs5 = length dd"
    and m: "m = [ap_size @ ''_arcsec'' \<mapsto> recs3,
              ''5_arcsec'' \<mapsto> (if ap_size @ ''_arcsec'' = ''5_arcsec'' then recs3 else []) @ recs5]"
    and r3: "\<forall>j < length dd. is_epoch_record (recs3 ! j) \<and> num_field ''mjd'' (recs3 ! j) = mjd dd ! j
            \<and> dict_get (recs3 ! j) ''template_subtracted'' = Inr (JBool (templ_file \<noteq> None))"
    and r5: "\<forall>j < length dd. is_epoch_record (recs5 ! j) \<and> num_field ''mjd'' (recs5 ! j) = mjd dd ! j
            \<and> dict_get (recs5 ! j) ''template_subtracted'' = Inr (JBool (templ_file \<noteq> None))"
    by (rule run_catalog)
  note f3 = num_mjd [OF len(1) r3] and f5 = num_mjd [OF len(2) r5]
  show "map (num_field ''mjd'') (the (m ''5_arcsec'')) = (if ap_size = ''5'' then mjd dd else []) @ mjd dd"
    by (simp add: m f3 f5)
  show "map (num_field ''mjd'') (the (m (ap_size @ ''_arcsec''))) = mjd dd" if "ap_size \<noteq> ''5''"
    using that by (simp add: m f3)
qed

text \<open>The dates in the catalog of a run, in the order of the rows.\<close>

lemma run_dates:
  assumes "extract_photometry (Some dd) ab det_limit ap_size templ_file = Inr m"
  shows "field ''mjd'' (the (m ''5_arcsec'')) =
           (if ap_size = ''5'' then map (\<lambda>x. Inr (JNum x)) (mjd dd) else [])
           @ map (\<lambda>x. Inr (JNum x)) (mjd dd)"
    and "ap_size \<noteq> ''5'' \<Longrightarrow>
         field ''mjd'' (the (m (ap_size @ ''_arcsec''))) = map (\<lambda>x. Inr (JNum x)) (mjd dd)"
proof -
  from assms obtain recs3 recs5 where
    len: "length recs3 = length dd" "length recs5 = length dd"
    and m: "m = [ap_size @ ''_arcsec'' \<mapsto> recs3,
              ''5_arcsec'' \<mapsto> (if ap_size @ ''_arcsec'' = ''5_arcsec'' then recs3 else []) @ recs5]"
    and r3: "\<forall>j < length dd. is_epoch_record (recs3 ! j) \<and> num_field ''mjd'' (recs3 ! j) = mjd dd ! j
            \<and> dict_get (recs3 ! j) ''template_subtracted'' = Inr (JBool (templ_file \<noteq> None))"
    and r5: "\<forall>j < length dd. is_epoch_record (recs5 ! j) \<and> num_field ''mjd'' (recs5 ! j) = mjd dd ! j
            \<and> dict_get (recs5 ! j) ''template_subtracted'' = Inr (JBool (templ_file \<noteq> None))"
    by (rule run_catalog)
  note f3 = field_mjd [OF len(1) r3] and f5 = field_mjd [OF len(2) r5]
  show "field ''mjd'' (the (m ''5_arcsec'')) =
           (if ap_size = ''5'' then map (\<lambda>x. Inr (JNum x)) (mjd dd) else [])
           @ map (\<lambda>x. Inr (JNum x)) (mjd dd)"
    by (simp add: m field_append f3 f5) (simp add: field_def)
  show "field ''mjd'' (the (m (ap_size @ ''_arcsec''))) = map (\<lambda>x. Inr (JNum x)) (mjd dd)"
    if "ap_size \<noteq> ''5''"
    using that by (simp add: m f3)
qed

lemma mjd_r1_r2: "mjd [r1, r2] = [Fin 51911, Fin 51910]"
  by (simp add: mjd_def sadd_v_def vdiv_s_def vadd_def col_def r1_def r2_def mjdref_def)

lemma finite_times_r1_r2: "\<forall>r \<in> set [r1, r2]. \<exists>a b. TSTART r = Fin a \<and> TSTOP r = Fin b"
  by (simp add: r1_def r2_def)

lemma run_r1_r2:
  "\<exists>m. extract_photometry (Some [r1, r2]) 0 (Fin 3) ''3'' None = Inr m"
  by (rule extract_photometry_ok) (simp_all add: r1_def ZP_def)

subsection \<open>Order of the catalog at output time\<close>

text \<open>
  C9, as stated, fails: neither JSON file is written in order of date, and the
  user-aperture sequence is never sorted. For the science table \<open>[r1, r2]\<close>, whose
  second row is one day older than the first, the file of the 5-arcsecond aperture
  holds the dates 51911, 51910 in that order, and so does the user-aperture sequence
  that \<^verbatim>\<open>output_mags\<close> leaves.
\<close>

theorem output_order_counterexample:
  "field ''mjd'' (snd (written (projr (output_mags
       (projr (extract_photometry (Some [r1, r2]) 0 (Fin 3) ''3'' None)) ''3'')) ! 1))
     = [Inr (JNum (Fin 51911)), Inr (JNum (Fin 51910))]
   \<and> field ''mjd'' (the (mag_after (projr (output_mags
       (projr (extract_photometry (Some [r1, r2]) 0 (Fin 3) ''3'' None)) ''3'')) ''3_arcsec''))
     = [Inr (JNum (Fin 51911)), Inr (JNum (Fin 51910))]"
proof -
  from run_r1_r2 obtain m where
    m: "extract_photometry (Some [r1, r2]) 0 (Fin 3) ''3'' None = Inr m" by blast
  note out = output_of_run [OF m finite_times_r1_r2]
  have "field ''mjd'' (the (m ''5_arcsec'')) = [Inr (JNum (Fin 51911)), Inr (JNum (Fin 51910))]"
    using run_dates(1) [OF m] by (simp add: mjd_r1_r2)
  moreover have "field ''mjd'' (the (m ''3_arcsec'')) = [Inr (JNum (Fin 51911)), Inr (JNum (Fin 51910))]"
    using run_dates(2) [OF m] by (simp add: mjd_r1_r2)
  ultimately show ?thesis
    by (simp add: m out)
qed

text \<open>
  C9, amended: for a run whose observation times are finite, \<^verbatim>\<open>output_mags\<close> raises
  nothing; it writes each of the two sequences to its JSON file in the order of the
  rows of the table, unsorted; only then it replaces the 5-arcsecond sequence by its
  stable sort by ascending date (the user-aperture sequence, under another label,
  stays as it was); and after two header texts it prints one line per record of the
  sorted 5-arcsecond sequence, in that order: the date to 5 decimals, the filter, the
  magnitude (for an upper limit the limit) to 4 decimals and the error (for an upper
  limit 0.0) to 4 decimals.
\<close>

theorem report_in_date_order:
  assumes "extract_photometry (Some dd) ab det_limit ap_size templ_file = Inr m"
    and "\<forall>r \<in> set dd. \<exists>a b. TSTART r = Fin a \<and> TSTOP r = Fin b"
  shows "\<exists>out. output_mags m ap_size = Inr out
     \<and> written out =
         [(path_join ''reduction'' (ap_size @ ''_arcsec_photometry.json''), the (m (ap_size @ ''_arcsec''))),
          (''reduction/5_arcsec_photometry.json'', the (m ''5_arcsec''))]
     \<and> mag_after out = m(''5_arcsec'' \<mapsto> sort_key date_of (the (m ''5_arcsec'')))
     \<and> printed out =
         [Text ''5-arcsec output photometry:\<newline>'', Text (replicate 80 CHR ''#'' @ ''\<newline>\<newline>'')]
         @ map report_row (sort_key date_of (the (m ''5_arcsec'')))
     \<and> sorted (map date_of (sort_key date_of (the (m ''5_arcsec''))))
     \<and> length (sort_key date_of (the (m ''5_arcsec''))) = length (the (m ''5_arcsec''))
     \<and> (\<forall>t. filter (\<lambda>d. date_of d = t) (sort_key date_of (the (m ''5_arcsec'')))
            = filter (\<lambda>d. date_of d = t) (the (m ''5_arcsec'')))"
  using output_of_run [OF assms] by (simp add: sort_key_stable)

theorem report_in_date_order_witness:
  "\<exists>out. output_mags (projr (extract_photometry (Some [r1, r2]) 0 (Fin 3) ''3'' None)) ''3'' = Inr out
     \<and> map date_of (the (mag_after out ''5_arcsec'')) = [51910, 51911]
     \<and> map date_of (the (mag_after out ''3_arcsec'')) = [51911, 51910]
     \<and> map date_of (snd (written out ! 0)) = [51911, 51910]
     \<and> map date_of (snd (written out ! 1)) = [51911, 51910]
     \<and> length (printed out) = 4"
proof -
  from run_r1_r2 obtain m where
    m: "extract_photometry (Some [r1, r2]) 0 (Fin 3) ''3'' None = Inr m" by blast
  have d5: "map date_of (the (m ''5_arcsec'')) = [51911, 51910]"
    and d3: "map date_of (the (m ''3_arcsec'')) = [51911, 51910]"
    using run_num_dates [OF m] by (simp_all add: map_date_of mjd_r1_r2 fin_val_def)
  from d5 obtain a b where ab: "the (m ''5_arcsec'') = [a, b]"
    and dates: "date_of a = 51911" "date_of b = 51910"
    by (auto simp: map_eq_Cons_conv)
  have s: "sort_key date_of (the (m ''5_arcsec'')) = [b, a]"
    by (simp add: ab dates)
  from report_in_date_order [OF m finite_times_r1_r2] obtain out where
    o: "output_mags m ''3'' = Inr out"
      "written out =
         [(path_join ''reduction'' (''3'' @ ''_arcsec_photometry.json''), the (m (''3'' @ ''_arcsec''))),
          (''reduction/5_arcsec_photometry.json'', the (m ''5_arcsec''))]"
      "mag_after out = m(''5_arcsec'' \<mapsto> sort_key date_of (the (m ''5_arcsec'')))"
      "printed out =
         [Text ''5-arcsec output photometry:\<newline>'', Text (replicate 80 CHR ''#'' @ ''\<newline>\<newline>'')]
         @ map report_row (sort_key date_of (the (m ''5_arcsec'')))"
    by blast
  show ?thesis
    by (rule exI [of _ out]) (simp add: m o s d3 d5 dates)
qed

subsection \<open>Subtraction of the template and aperture correction\<close>

text \<open>
  Lines 370 to 384, row by row: the reference is subtracted and its error added in
  quadrature; then, where the label of the aperture is the user label, the rate is
  multiplied by AP_FACTOR and the error by AP_FACTOR_ERR, and otherwise both are kept.
\<close>

lemma subtraction_and_aperture_correction:
  assumes "length BCR = length dd" and "length BCRe = length dd" and "j < length dd"
  shows "BCGR BCR ref ! j = fsub (BCR ! j) ref"
    and "BCGRe BCRe ref_err ! j = fsqrt (fadd (fsq (BCRe ! j)) (fsq ref_err))"
    and "BCGAR label user_ap dd (BCGR BCR ref) ! j =
           (if label = user_ap then fmul (BCGR BCR ref ! j) (AP_FACTOR (dd ! j))
            else BCGR BCR ref ! j)"
    and "BCGARe label user_ap dd (BCGRe BCRe ref_err) ! j =
           (if label = user_ap then fmul (BCGRe BCRe ref_err ! j) (AP_FACTOR_ERR (dd ! j))
            else BCGRe BCRe ref_err ! j)"
  using assms
  by (simp_all add: BCGR_def BCGRe_def BCGAR_def BCGARe_def vsub_s_def vsqrt_def vadd_s_def
      vsq_def vmul_def)

lemmas run_defs =
  extract_photometry_def first_file_None process_file_science science_pass_def
  st_no_template_def ZP_def Vega_corr_def Vega_def epoch_records_def nth_BCGARs nth_BCGAMl
  field_def epoch_record_fields BCGAR_def BCGARe_def BCGRe_def S3BCR_def S3BCRe_def S5BCR_def
  S5BCRe_def S5CRe_def SC_def col_def vmul_def vsub_def vsqrt_def vadd_def vsq_def vadd_s_def

text \<open>
  C5 holds where the user label differs from \<^verbatim>\<open>'5_arcsec'\<close> and fails where the
  aperture size is \<^verbatim>\<open>'5'\<close>: then the label of the fixed aperture is the user label, the
  test of line 374 succeeds for the fixed aperture too, and its rate and error are
  multiplied by AP_FACTOR and AP_FACTOR_ERR. For the science table \<open>[r3]\<close> (5 counts
  per second with error 1, AP_FACTOR 2, AP_FACTOR_ERR 1/3, no template) the record of
  the fixed aperture has magnitude \<open>19.11 - 2.5 log10 5\<close> and limit
  \<open>19.11 - 2.5 log10 3\<close> with aperture size 3, as C5 says, but magnitude 16.61 (from
  the rate 10) and limit 19.11 (from the error 1/3) with aperture size 5.
\<close>

theorem fixed_aperture_corrected_at_5:
  "field ''mag'' (the (projr (extract_photometry (Some [r3]) 0 (Fin 3) ''3'' None) ''5_arcsec''))
     = [Inr (JNum (Fin (19.11 - 2.5 * log 10 5)))]
   \<and> field ''mag_limit'' (the (projr (extract_photometry (Some [r3]) 0 (Fin 3) ''3'' None) ''5_arcsec''))
     = [Inr (JNum (Fin (19.11 - 2.5 * log 10 3)))]
   \<and> field ''mag'' (the (projr (extract_photometry (Some [r3]) 0 (Fin 3) ''5'' None) ''5_arcsec''))
     = [Inr (JNum (Fin 16.61)), Inr (JNum (Fin 16.61))]
   \<and> field ''mag_limit'' (the (projr (extract_photometry (Some [r3]) 0 (Fin 3) ''5'' None) ''5_arcsec''))
     = [Inr (JNum (Fin 19.11)), Inr (JNum (Fin 19.11))]"
  by (simp add: run_defs r3_def)

subsection \<open>A detection with a rate that is not positive\<close>

text \<open>
  C6, as stated, fails: the code has no NonPhysicalFluxError and raises nothing for a
  rate. For the science table \<open>[r4]\<close>, whose rates are -1 with error 1, and the
  detection limit -2, the run returns a catalog; both records are detections and
  their magnitude is \<open>NaN\<close>.
\<close>

theorem nonpositive_rate_counterexample:
  "\<not> isl (extract_photometry (Some [r4]) 0 (Fin (- 2)) ''3'' None)
   \<and> field ''upper_limit'' (the (projr (extract_photometry (Some [r4]) 0 (Fin (- 2)) ''3'' None) ''3_arcsec''))
     = [Inr (JBool False)]
   \<and> field ''mag'' (the (projr (extract_photometry (Some [r4]) 0 (Fin (- 2)) ''3'' None) ''3_arcsec''))
     = [Inr (JNum NaN)]
   \<and> field ''upper_limit'' (the (projr (extract_photometry (Some [r4]) 0 (Fin (- 2)) ''3'' None) ''5_arcsec''))
     = [Inr (JBool False)]
   \<and> field ''mag'' (the (projr (extract_photometry (Some [r4]) 0 (Fin (- 2)) ''3'' None) ''5_arcsec''))
     = [Inr (JNum NaN)]"
  by (simp add: run_defs r4_def fsub_def)

lemma magnitude_of_nonpositive_rate:
  assumes "c < 0" and "fge (Fin 0) ar"
  shows "fsub (fadd (fmul (Fin c) (flog10 ar)) (Fin zp)) (Fin vega)
         = (if ar = Fin 0 then PInf else NaN)"
  using assms by (cases ar) (simp_all add: fsub_def inf_of_sign_def sgn_if)

text \<open>
  C6, amended: where one aperture of the science file is reduced (its references, its
  list and the filter known), no rate makes the reduction fail. For a row whose
  significance reaches the detection limit while its aperture-corrected rate is not
  positive, the record is emitted as a detection, and its magnitude is \<open>NaN\<close> for a
  negative rate and plus infinity for the rate 0.
\<close>

theorem nonpositive_rate_detection:
  assumes "BCR_temp st label = Some ref" and "BCRe_temp st label = Some ref_err"
    and "ZP filt = Some (zp, zpe)" and "mag st label = Some old"
    and "length BCR = length dd" and "length BCRe = length dd" and "j < length dd"
    and "fge (fdiv (BCGAR label user_ap dd (BCGR BCR ref) ! j)
                   (BCGARe label user_ap dd (BCGRe BCRe ref_err) ! j)) det_limit"
    and "fge (Fin 0) (BCGAR label user_ap dd (BCGR BCR ref) ! j)"
  shows "\<exists>st'. science_pass ab det_limit user_ap dd filt BCR BCRe label st = Inr st'
     \<and> dict_get (the (mag st' label) ! (length old + j)) ''upper_limit'' = Inr (JBool False)
     \<and> dict_get (the (mag st' label) ! (length old + j)) ''mag''
         = Inr (JNum (if BCGAR label user_ap dd (BCGR BCR ref) ! j = Fin 0 then PInf else NaN))"
proof -
  obtain vega where vega: "Vega_corr ab filt = Some vega"
    using assms(3) Vega_corr_dom [of ab] by blast
  let ?ar = "BCGAR label user_ap dd (BCGR BCR ref)"
  let ?ae = "BCGARe label user_ap dd (BCGRe BCRe ref_err)"
  have len: "j < length ?ar" "j < length ?ae"
    using assms(5-7) by simp_all
  show ?thesis
    unfolding science_pass_ok [OF assms(1,2,3) vega assms(4)]
    using len assms(8,9)
    by (simp add: nth_epoch_records epoch_record_fields magnitude_of_nonpositive_rate)
qed

theorem nonpositive_rate_detection_witness:
  "\<exists>st'. science_pass 0 (Fin (- 2)) ''3_arcsec'' [r4] ''B'' [Fin (- 1)] [Fin 1] ''5_arcsec''
            (st_no_template ''3_arcsec'') = Inr st'
     \<and> dict_get (the (mag st' ''5_arcsec'') ! 0) ''upper_limit'' = Inr (JBool False)
     \<and> dict_get (the (mag st' ''5_arcsec'') ! 0) ''mag'' = Inr (JNum NaN)"
  using nonpositive_rate_detection [of "st_no_template ''3_arcsec''" "''5_arcsec''" "Fin 0" "Fin 0"
      "''B''" "18.98" "0.02" "[]" "[Fin (- 1)]" "[r4]" "[Fin 1]" 0 "''3_arcsec''" "Fin (- 2)" 0]
  by (simp add: st_no_template_def ZP_def BCGAR_def BCGARe_def BCGRe_def vsqrt_def vadd_s_def vsq_def)

text \<open>The run on the science table \<open>[r1]\<close> with aperture size 3 and no template: one record per aperture.\<close>

lemma run_r1: "\<exists>m. extract_photometry (Some [r1]) 0 (Fin 3) ''3'' None = Inr m"
  by (rule extract_photometry_ok) (simp_all add: r1_def ZP_def)

lemma finite_times_r1: "\<forall>r \<in> set [r1]. \<exists>a b. TSTART r = Fin a \<and> TSTOP r = Fin b"
  by (simp add: r1_def)

lemma catalog_r1:
  assumes "extract_photometry (Some [r1]) 0 (Fin 3) ''3'' None = Inr m"
  obtains d3 d5 where "m ''3_arcsec'' = Some [d3]" and "m ''5_arcsec'' = Some [d5]"
proof -
  have "length (map (num_field ''mjd'') (the (m ''5_arcsec''))) = length (mjd [r1])"
    using run_num_dates(1) [OF assms] by simp
  then have l5: "length (the (m ''5_arcsec'')) = 1" by simp
  have "length (map (num_field ''mjd'') (the (m (''3'' @ ''_arcsec'')))) = length (mjd [r1])"
    using run_num_dates(2) [OF assms] by simp
  then have l3: "length (the (m ''3_arcsec'')) = 1" by simp
  from catalog_labels [OF assms] obtain ds3 ds5 where
    ds: "m ''3_arcsec'' = Some ds3" "m ''5_arcsec'' = Some ds5" by auto
  from l3 l5 ds obtain d3 d5 where "ds3 = [d3]" and "ds5 = [d5]"
    by (auto simp: length_Suc_conv)
  with ds that show thesis by simp
qed

subsection \<open>A run without template\<close>

text \<open>
  C7: where no template file is given, the first pass of the loop over the files
  raises nothing and leaves the references 0 with error 0 under both labels;
  subtracting that reference leaves the science rates of both apertures as they are;
  and a run on a science table with at least one row and a known filter returns a
  catalog in which every record has \<^verbatim>\<open>template_subtracted\<close> false.
\<close>

theorem no_template_no_subtraction:
  assumes "dd \<noteq> []" and "FILTER (hd dd) \<in> dom ZP"
  shows "\<exists>st1 m.
       process_file ab det_limit (ap_size @ ''_arcsec'') 0 None
         (initial_state (ap_size @ ''_arcsec'') None) = Inr st1
     \<and> BCR_temp st1 (ap_size @ ''_arcsec'') = Some (Fin 0) \<and> BCR_temp st1 ''5_arcsec'' = Some (Fin 0)
     \<and> BCRe_temp st1 (ap_size @ ''_arcsec'') = Some (Fin 0) \<and> BCRe_temp st1 ''5_arcsec'' = Some (Fin 0)
     \<and> BCGR (S3BCR dd) (Fin 0) = S3BCR dd \<and> BCGR (S5BCR dd) (Fin 0) = S5BCR dd
     \<and> extract_photometry (Some dd) ab det_limit ap_size None = Inr m
     \<and> (\<forall>label ds d. m label = Some ds \<and> d \<in> set ds \<longrightarrow>
            dict_get d ''template_subtracted'' = Inr (JBool False))"
proof -
  from extract_photometry_ok [OF assms, of None ab det_limit ap_size] obtain m where
    m: "extract_photometry (Some dd) ab det_limit ap_size None = Inr m" by auto
  have "\<forall>label ds d. m label = Some ds \<and> d \<in> set ds \<longrightarrow>
            dict_get d ''template_subtracted'' = Inr (JBool False)"
    using catalog_members(2) [OF m] by auto
  then show ?thesis
    using m by (simp add: first_file_None st_no_template_def)
qed

theorem no_template_no_subtraction_witness:
  "\<not> isl (process_file 0 (Fin 3) ''3_arcsec'' 0 None (initial_state ''3_arcsec'' None))
   \<and> BCR_temp (projr (process_file 0 (Fin 3) ''3_arcsec'' 0 None (initial_state ''3_arcsec'' None)))
         ''5_arcsec'' = Some (Fin 0)
   \<and> BCGR (S3BCR [r1]) (Fin 0) = [Fin 100] \<and> BCGR (S5BCR [r1]) (Fin 0) = [Fin 80]
   \<and> \<not> isl (extract_photometry (Some [r1]) 0 (Fin 3) ''3'' None)
   \<and> field ''template_subtracted''
         (the (projr (extract_photometry (Some [r1]) 0 (Fin 3) ''3'' None) ''3_arcsec''))
       = [Inr (JBool False)]
   \<and> field ''template_subtracted''
         (the (projr (extract_photometry (Some [r1]) 0 (Fin 3) ''3'' None) ''5_arcsec''))
       = [Inr (JBool False)]"
proof -
  from no_template_no_subtraction [of "[r1]" 0 "Fin 3" "''3''"] obtain st1 m where
    st1: "process_file 0 (Fin 3) ''3_arcsec'' 0 None (initial_state ''3_arcsec'' None) = Inr st1"
      "BCR_temp st1 ''5_arcsec'' = Some (Fin 0)"
    and m: "extract_photometry (Some [r1]) 0 (Fin 3) ''3'' None = Inr m"
    and f: "\<forall>label ds d. m label = Some ds \<and> d \<in> set ds \<longrightarrow>
              dict_get d ''template_subtracted'' = Inr (JBool False)"
    by (auto simp: r1_def ZP_def)
  from m obtain d3 d5 where d: "m ''3_arcsec'' = Some [d3]" "m ''5_arcsec'' = Some [d5]"
    by (rule catalog_r1)
  have "dict_get d3 ''template_subtracted'' = Inr (JBool False)"
    using f [rule_format, of "''3_arcsec''" "[d3]" d3] d(1) by simp
  moreover have "dict_get d5 ''template_subtracted'' = Inr (JBool False)"
    using f [rule_format, of "''5_arcsec''" "[d5]" d5] d(2) by simp
  moreover have "BCGR (S3BCR [r1]) (Fin 0) = [Fin 100]" and "BCGR (S5BCR [r1]) (Fin 0) = [Fin 80]"
    by (simp_all add: r1_def S3BCR_def S5BCR_def SC_def col_def vmul_def vsub_def)
  ultimately show ?thesis
    using st1 by (simp add: m d field_def)
qed

subsection \<open>The keys of a record\<close>

lemma catalog_keys:
  assumes "extract_photometry phot_file ab det_limit ap_size templ_file = Inr m"
    and "m label = Some ds" and "d \<in> set ds"
  shows "keys d = record_keys"
proof (cases phot_file)
  case None
  then show ?thesis
    using assms extract_photometry_no_phot [of ab det_limit ap_size templ_file m]
    by (auto split: if_splits)
next
  case (Some dd)
  then show ?thesis
    using assms catalog_members(1) by (auto intro: is_epoch_record_keys)
qed

lemma record_keys_not_spec: "set record_keys \<noteq> spec_field_names"
proof -
  have "''mjd'' \<in> set record_keys" by (simp add: record_keys_def)
  moreover have "''mjd'' \<notin> spec_field_names" by (simp add: spec_field_names_def)
  ultimately show ?thesis by blast
qed

lemma written_keys_r1:
  assumes "extract_photometry (Some [r1]) 0 (Fin 3) ''3'' None = Inr m"
  shows "written_keys (projr (output_mags m ''3'')) = [[record_keys], [record_keys]]"
proof -
  note out = output_of_run [OF assms finite_times_r1]
  from assms obtain d3 d5 where d: "m ''3_arcsec'' = Some [d3]" "m ''5_arcsec'' = Some [d5]"
    by (rule catalog_r1)
  have "keys d3 = record_keys" and "keys d5 = record_keys"
    using catalog_keys [OF assms d(1)] catalog_keys [OF assms d(2)] by simp_all
  then show ?thesis
    by (simp add: out written_keys_def d)
qed

text \<open>
  C8, as stated, fails: the records of both JSON files carry the keys of the code,
  which are not the field names of the data model. For the science table \<open>[r1]\<close> each
  file holds one record with the keys \<open>record_keys\<close>: it has \<^verbatim>\<open>mjd\<close>, \<^verbatim>\<open>mag_sys\<close> and
  \<^verbatim>\<open>upper_limit\<close> where the data model says \<^verbatim>\<open>epoch_mjd\<close>, \<^verbatim>\<open>magnitude_system\<close> and
  \<^verbatim>\<open>is_upper_limit\<close>.
\<close>

theorem field_names_counterexample:
  "written_keys (projr (output_mags (projr (extract_photometry (Some [r1]) 0 (Fin 3) ''3'' None)) ''3''))
     = [[record_keys], [record_keys]]
   \<and> set record_keys \<noteq> spec_field_names"
proof -
  from run_r1 obtain m where
    m: "extract_photometry (Some [r1]) 0 (Fin 3) ''3'' None = Inr m" by blast
  show ?thesis
    using written_keys_r1 [OF m] record_keys_not_spec by (simp add: m)
qed

text \<open>
  C8, amended: every record in both serialized JSON arrays carries exactly the keys
  \<^verbatim>\<open>filter\<close>, \<^verbatim>\<open>aperture_correction\<close>, \<^verbatim>\<open>coincidence_loss_correction\<close>, \<^verbatim>\<open>mag_sys\<close>,
  \<^verbatim>\<open>mag_limit\<close>, \<^verbatim>\<open>template_subtracted\<close>, \<^verbatim>\<open>mjd\<close>, \<^verbatim>\<open>upper_limit\<close>, \<^verbatim>\<open>mag\<close> and
  \<^verbatim>\<open>mag_err\<close>, in this order.
\<close>

theorem catalog_record_keys:
  assumes "extract_photometry phot_file ab det_limit ap_size templ_file = Inr m"
    and "output_mags m ap_size = Inr out"
  shows "\<forall>(path, ds) \<in> set (written out). \<forall>d \<in> set ds.
           keys d = [''filter'', ''aperture_correction'', ''coincidence_loss_correction'',
                     ''mag_sys'', ''mag_limit'', ''template_subtracted'', ''mjd'',
                     ''upper_limit'', ''mag'', ''mag_err'']"
proof -
  have u: "m (ap_size @ ''_arcsec'') \<noteq> None" and s: "m ''5_arcsec'' \<noteq> None"
    using assms(2) by (auto simp: output_mags_def Let_def split: option.splits)
  show ?thesis
    unfolding output_mags_written [OF assms(2)]
    using u s catalog_keys [OF assms(1)] by (auto simp: record_keys_def)
qed

theorem catalog_record_keys_witness:
  "written_keys (projr (output_mags (projr (extract_photometry (Some [r1]) 0 (Fin 3) ''3'' None)) ''3''))
     = [[[''filter'', ''aperture_correction'', ''coincidence_loss_correction'', ''mag_sys'',
          ''mag_limit'', ''template_subtracted'', ''mjd'', ''upper_limit'', ''mag'', ''mag_err'']],
        [[''filter'', ''aperture_correction'', ''coincidence_loss_correction'', ''mag_sys'',
          ''mag_limit'', ''template_subtracted'', ''mjd'', ''upper_limit'', ''mag'', ''mag_err'']]]"
proof -
  from run_r1 obtain m where
    m: "extract_photometry (Some [r1]) 0 (Fin 3) ''3'' None = Inr m" by blast
  note out = output_of_run [OF m finite_times_r1]
  from m obtain d3 d5 where d: "m ''3_arcsec'' = Some [d3]" "m ''5_arcsec'' = Some [d5]"
    by (rule catalog_r1)
  from catalog_record_keys [OF m out] show ?thesis
    by (simp add: m out d written_keys_def)
qed

subsection \<open>The aperture size 5\<close>

text \<open>
  C10: with the aperture size \<^verbatim>\<open>'5'\<close> the user label is \<^verbatim>\<open>'5_arcsec'\<close>, the label
  of the fixed aperture, and the catalog of a run has that one key. Its list holds
  the records of the user aperture for all rows followed by the records of the fixed
  aperture for all rows, so every row appears twice; and whenever \<^verbatim>\<open>output_mags\<close>
  returns, its two writes go to the same path and dump that same list.
\<close>

theorem aperture_5_one_list:
  assumes "extract_photometry (Some dd) ab det_limit ''5'' templ_file = Inr m"
  shows "''5'' @ ''_arcsec'' = ''5_arcsec''
     \<and> dom m = {''5_arcsec''}
     \<and> (\<exists>ref3 err3 ref5 err5 zp zpe vega.
           m ''5_arcsec'' = Some
             (epoch_records (FILTER (hd dd)) (mag_sys ab) (templ_file \<noteq> None) det_limit zp zpe vega dd
                (BCGAR ''5_arcsec'' ''5_arcsec'' dd (BCGR (S3BCR dd) ref3))
                (BCGARe ''5_arcsec'' ''5_arcsec'' dd (BCGRe (S3BCRe (templ_file \<noteq> None) 1 dd) err3))
              @ epoch_records (FILTER (hd dd)) (mag_sys ab) (templ_file \<noteq> None) det_limit zp zpe vega dd
                  (BCGAR ''5_arcsec'' ''5_arcsec'' dd (BCGR (S5BCR dd) ref5))
                  (BCGARe ''5_arcsec'' ''5_arcsec'' dd (BCGRe (S5BCRe (templ_file \<noteq> None) 1 dd) err5))))
     \<and> length (the (m ''5_arcsec'')) = 2 * length dd
     \<and> map (num_field ''mjd'') (the (m ''5_arcsec'')) = mjd dd @ mjd dd
     \<and> (\<forall>out. output_mags m ''5'' = Inr out \<longrightarrow>
           written out = [(''reduction/5_arcsec_photometry.json'', the (m ''5_arcsec'')),
                          (''reduction/5_arcsec_photometry.json'', the (m ''5_arcsec''))])"
proof -
  from assms obtain st1 ref3 err3 ref5 err5 zp zpe vega where
    m: "m = [''5'' @ ''_arcsec'' \<mapsto>
                epoch_records (FILTER (hd dd)) (mag_sys ab) (templ_file \<noteq> None) det_limit zp zpe vega dd
                  (BCGAR (''5'' @ ''_arcsec'') (''5'' @ ''_arcsec'') dd (BCGR (S3BCR dd) ref3))
                  (BCGARe (''5'' @ ''_arcsec'') (''5'' @ ''_arcsec'') dd
                     (BCGRe (S3BCRe (templ_file \<noteq> None) 1 dd) err3)),
              ''5_arcsec'' \<mapsto>
                (if ''5'' @ ''_arcsec'' = ''5_arcsec''
                 then epoch_records (FILTER (hd dd)) (mag_sys ab) (templ_file \<noteq> None) det_limit zp zpe vega dd
                        (BCGAR (''5'' @ ''_arcsec'') (''5'' @ ''_arcsec'') dd (BCGR (S3BCR dd) ref3))
                        (BCGARe (''5'' @ ''_arcsec'') (''5'' @ ''_arcsec'') dd
                           (BCGRe (S3BCRe (templ_file \<noteq> None) 1 dd) err3))
                 else [])
                @ epoch_records (FILTER (hd dd)) (mag_sys ab) (templ_file \<noteq> None) det_limit zp zpe vega dd
                    (BCGAR ''5_arcsec'' (''5'' @ ''_arcsec'') dd (BCGR (S5BCR dd) ref5))
                    (BCGARe ''5_arcsec'' (''5'' @ ''_arcsec'') dd
                       (BCGRe (S5BCRe (templ_file \<noteq> None) 1 dd) err5))]"
    by (rule extract_photometry_Inr)
  have explicit: "m ''5_arcsec'' = Some
             (epoch_records (FILTER (hd dd)) (mag_sys ab) (templ_file \<noteq> None) det_limit zp zpe vega dd
                (BCGAR ''5_arcsec'' ''5_arcsec'' dd (BCGR (S3BCR dd) ref3))
                (BCGARe ''5_arcsec'' ''5_arcsec'' dd (BCGRe (S3BCRe (templ_file \<noteq> None) 1 dd) err3))
              @ epoch_records (FILTER (hd dd)) (mag_sys ab) (templ_file \<noteq> None) det_limit zp zpe vega dd
                  (BCGAR ''5_arcsec'' ''5_arcsec'' dd (BCGR (S5BCR dd) ref5))
                  (BCGARe ''5_arcsec'' ''5_arcsec'' dd (BCGRe (S5BCRe (templ_file \<noteq> None) 1 dd) err5)))"
    by (simp add: m)
  have dom: "dom m = {''5_arcsec''}"
    by (simp add: m)
  have dates: "map (num_field ''mjd'') (the (m ''5_arcsec'')) = mjd dd @ mjd dd"
    using run_num_dates(1) [OF assms] by simp
  then have "length (map (num_field ''mjd'') (the (m ''5_arcsec''))) = length (mjd dd @ mjd dd)"
    by (rule arg_cong)
  then have len: "length (the (m ''5_arcsec'')) = 2 * length dd"
    by simp
  have files: "written out = [(''reduction/5_arcsec_photometry.json'', the (m ''5_arcsec'')),
                          (''reduction/5_arcsec_photometry.json'', the (m ''5_arcsec''))]"
    if "output_mags m ''5'' = Inr out" for out
    using output_mags_written [OF that] by (simp add: path_join_def)
  have "''5'' @ ''_arcsec'' = ''5_arcsec''"
    by simp
  moreover note dom
  moreover have "\<exists>ref3 err3 ref5 err5 zp zpe vega.
           m ''5_arcsec'' = Some
             (epoch_records (FILTER (hd dd)) (mag_sys ab) (templ_file \<noteq> None) det_limit zp zpe vega dd
                (BCGAR ''5_arcsec'' ''5_arcsec'' dd (BCGR (S3BCR dd) ref3))
                (BCGARe ''5_arcsec'' ''5_arcsec'' dd (BCGRe (S3BCRe (templ_file \<noteq> None) 1 dd) err3))
              @ epoch_records (FILTER (hd dd)) (mag_sys ab) (templ_file \<noteq> None) det_limit zp zpe vega dd
                  (BCGAR ''5_arcsec'' ''5_arcsec'' dd (BCGR (S5BCR dd) ref5))
                  (BCGARe ''5_arcsec'' ''5_arcsec'' dd (BCGRe (S5BCRe (templ_file \<noteq> None) 1 dd) err5)))"
    by (intro exI) (rule explicit)
  moreover note len dates
  moreover have "\<forall>out. output_mags m ''5'' = Inr out \<longrightarrow>
           written out = [(''reduction/5_arcsec_photometry.json'', the (m ''5_arcsec'')),
                          (''reduction/5_arcsec_photometry.json'', the (m ''5_arcsec''))]"
    using files by (intro allI impI)
  ultimately show ?thesis
    by (intro conjI)
qed

lemma run_r1_5: "\<exists>m. extract_photometry (Some [r1]) 0 (Fin 3) ''5'' None = Inr m"
  by (rule extract_photometry_ok) (simp_all add: r1_def ZP_def)

theorem aperture_5_one_list_witness:
  "dom (projr (extract_photometry (Some [r1]) 0 (Fin 3) ''5'' None)) = {''5_arcsec''}
   \<and> map (num_field ''mjd'') (the (projr (extract_photometry (Some [r1]) 0 (Fin 3) ''5'' None) ''5_arcsec''))
       = [Fin 51911, Fin 51911]
   \<and> map fst (written (projr (output_mags (projr (extract_photometry (Some [r1]) 0 (Fin 3) ''5'' None)) ''5'')))
       = [''reduction/5_arcsec_photometry.json'', ''reduction/5_arcsec_photometry.json'']
   \<and> map (length \<circ> snd)
        (written (projr (output_mags (projr (extract_photometry (Some [r1]) 0 (Fin 3) ''5'' None)) ''5'')))
       = [2, 2]"
proof -
  from run_r1_5 obtain m where
    m: "extract_photometry (Some [r1]) 0 (Fin 3) ''5'' None = Inr m" by blast
  note out = output_of_run [OF m finite_times_r1]
  have mjd1: "mjd [r1] = [Fin 51911]"
    by (simp add: mjd_def sadd_v_def vdiv_s_def vadd_def col_def r1_def mjdref_def)
  from aperture_5_one_list [OF m] show ?thesis
    by (simp add: m out mjd1)
qed

end
